theory Spec2Isabelle
  imports Complex_Main
begin

section \<open>Numbers and rack constants\<close>

text \<open>
  The TypeScript sources compute with \<open>number\<close>. Lengths are modelled as exact
  rationals (rounding of binary floating point is not part of the model); counts,
  shelf levels and rack-unit indices are natural numbers. The constants are the ones
  at the top of the 3D view and inside \<open>AisleRacks\<close>:
  \<open>POST_SIZE = 0.15\<close>, \<open>BOX_GAP = 0.05\<close>, \<open>rackWidth = 3\<close>, \<open>rackDepth = 1.5\<close>.
\<close>

definition POST_SIZE :: rat where
  "POST_SIZE = 15 / 100"

definition BOX_GAP :: rat where
  "BOX_GAP = 5 / 100"

definition rackWidth :: rat where
  "rackWidth = 3"

definition rackDepth :: rat where
  "rackDepth = 3 / 2"

text \<open>
  The usable shelf area of one rack unit, in the rack's local coordinates. Both the
  packing loop and the vacant-spot grid use these four expressions.
\<close>

definition startX :: rat where
  "startX = - rackWidth / 2 + POST_SIZE + 1 / 10"

definition startZ :: rat where
  "startZ = - rackDepth / 2 + POST_SIZE + 1 / 10"

definition endX :: rat where
  "endX = rackWidth / 2 - POST_SIZE - 1 / 10"

definition endZ :: rat where
  "endZ = rackDepth / 2 - POST_SIZE - 1 / 10"

section \<open>Data model\<close>

record Dimensions =
  d_width :: rat
  d_height :: rat
  d_depth :: rat

text \<open>\<open>boxDimensions\<close> is optional because the packer guards against its absence.\<close>

record InventoryProduct =
  ip_id :: string
  ip_userId :: string
  ip_name :: string
  ip_sku :: string
  ip_category :: string
  boxDimensions :: "Dimensions option"
  itemsPerBox :: nat
  ip_labelColor :: string
  pricePerItem :: rat
  totalBoxesStock :: nat

record AisleProduct =
  ap_id :: string
  ap_productId :: string
  ap_aisleId :: string
  quantityBoxes :: nat
  ap_shelfLevel :: nat
  ap_position :: nat

record Aisle =
  a_id :: string
  a_storeId :: string
  a_name :: string
  a_x :: rat
  a_z :: rat
  a_width :: rat
  a_length :: rat
  a_height :: rat
  shelves :: nat
  products :: "AisleProduct list"

text \<open>\<open>b_x\<close> and \<open>b_z\<close> are the centre of the box footprint, as in \<open>BoxData\<close>.\<close>

record BoxData =
  boxId :: string
  b_aisleId :: string
  b_shelfLevel :: nat
  unitIndex :: nat
  b_x :: rat
  b_z :: rat
  b_width :: rat
  b_height :: rat
  b_depth :: rat
  b_labelColor :: string
  b_productId :: string
  b_product :: InventoryProduct
  quantity :: nat

record Cursor =
  c_unit :: nat
  c_x :: rat
  c_z :: rat
  boxIdx :: nat

datatype error = TypeError

text \<open>\<open>Map<number, Map<number, BoxData[]>>\<close>: rack unit, then shelf level.\<close>

type_synonym Placement = "nat \<rightharpoonup> (nat \<rightharpoonup> BoxData list)"

section \<open>The packing computation of \<open>AisleRacks\<close>\<close>

definition numUnits :: "Aisle \<Rightarrow> nat" where
  "numUnits aisle = nat (max 1 \<lfloor>a_length aisle / rackWidth\<rfloor>)"

text \<open>Decimal rendering of a number inside a template string.\<close>

definition digit_char :: "nat \<Rightarrow> char" where
  "digit_char n = ''0123456789'' ! n"

fun string_of_nat :: "nat \<Rightarrow> string" where
  "string_of_nat n = (if n < 10 then [digit_char n] else string_of_nat (n div 10) @ [digit_char (n mod 10)])"

declare string_of_nat.simps [simp del]

definition mkBoxId :: "string \<Rightarrow> string \<Rightarrow> nat \<Rightarrow> nat \<Rightarrow> nat \<Rightarrow> string" where
  "mkBoxId aisleId productId targetShelf unit idx =
     aisleId @ ''-'' @ productId @ ''-'' @ string_of_nat targetShelf @ ''-'' @
     string_of_nat unit @ ''-'' @ string_of_nat idx"

definition startCursor :: Cursor where
  "startCursor = \<lparr>c_unit = 0, c_x = startX, c_z = startZ, boxIdx = 0\<rparr>"

text \<open>The two initialisation loops: units \<open>0 .. numUnits - 1\<close>, levels \<open>1 .. shelves\<close>.\<close>

definition initResult :: "nat \<Rightarrow> nat \<Rightarrow> Placement" where
  "initResult nu sh =
     (\<lambda>u. if u < nu then Some (\<lambda>l. if 1 \<le> l \<and> l \<le> sh then Some [] else None) else None)"

definition initCursors :: "nat \<Rightarrow> (nat \<rightharpoonup> Cursor)" where
  "initCursors sh = (\<lambda>l. if 1 \<le> l \<and> l \<le> sh then Some startCursor else None)"

text \<open>JavaScript \<open>a || b\<close> on numbers and strings: the fallback replaces a falsy value.\<close>

definition orNum :: "rat \<Rightarrow> rat \<Rightarrow> rat" where
  "orNum a b = (if a = 0 then b else a)"

definition orStr :: "string \<Rightarrow> string \<Rightarrow> string" where
  "orStr a b = (if a = [] then b else a)"

text \<open>The object pushed for a box placed at the cursor.\<close>

definition boxAtCursor ::
  "string \<Rightarrow> AisleProduct \<Rightarrow> InventoryProduct \<Rightarrow> nat \<Rightarrow> rat \<Rightarrow> rat \<Rightarrow> rat \<Rightarrow> Cursor \<Rightarrow> BoxData" where
  "boxAtCursor aisleId aprod invItem targetShelf boxW boxH boxD cursor =
     \<lparr>boxId = mkBoxId aisleId (ap_productId aprod) targetShelf (c_unit cursor) (boxIdx cursor),
      b_aisleId = aisleId,
      b_shelfLevel = targetShelf,
      unitIndex = c_unit cursor,
      b_x = c_x cursor + boxW / 2,
      b_z = c_z cursor + boxD / 2,
      b_width = boxW,
      b_height = boxH,
      b_depth = boxD,
      b_labelColor = orStr (ip_labelColor invItem) ''#3B82F6'',
      b_productId = ap_productId aprod,
      b_product = invItem,
      quantity = quantityBoxes aprod\<rparr>"

text \<open>
  The tail of one loop iteration: build the id, bump the counter, push the box onto
  \<open>result.get(cursor.unit)!.get(targetShelf)!\<close> and advance \<open>cursor.x\<close>. Either
  \<open>get\<close> may give \<open>undefined\<close>, and then the member access throws.
\<close>

definition emitBox ::
  "string \<Rightarrow> AisleProduct \<Rightarrow> InventoryProduct \<Rightarrow> nat \<Rightarrow> rat \<Rightarrow> rat \<Rightarrow> rat \<Rightarrow>
   Cursor \<Rightarrow> Placement \<Rightarrow> error + (Cursor \<times> Placement)" where
  "emitBox aisleId aprod invItem targetShelf boxW boxH boxD cursor result =
     (case result (c_unit cursor) of
        None \<Rightarrow> Inl TypeError
      | Some levels \<Rightarrow>
          (case levels targetShelf of
             None \<Rightarrow> Inl TypeError
           | Some boxes \<Rightarrow>
               Inr (cursor\<lparr>c_x := c_x cursor + boxW + BOX_GAP, boxIdx := boxIdx cursor + 1\<rparr>,
                    result(c_unit cursor \<mapsto> levels(targetShelf \<mapsto> boxes @
                      [boxAtCursor aisleId aprod invItem targetShelf boxW boxH boxD cursor])))))"

text \<open>
  The inner \<open>for\<close> loop, by the number of iterations still to run. \<open>rowWrap\<close> and
  \<open>unitWrap\<close> are its two checks; the loop breaks when the unit counter reaches
  \<open>numUnits\<close>, after the cursor has been moved.
\<close>

definition rowWrap :: "rat \<Rightarrow> rat \<Rightarrow> Cursor \<Rightarrow> Cursor" where
  "rowWrap boxW boxD cursor =
     (if c_x cursor + boxW > endX
      then cursor\<lparr>c_x := startX, c_z := c_z cursor + boxD + BOX_GAP\<rparr>
      else cursor)"

definition unitWrap :: "rat \<Rightarrow> Cursor \<Rightarrow> Cursor" where
  "unitWrap boxD cursor =
     (if c_z cursor + boxD > endZ
      then cursor\<lparr>c_unit := c_unit cursor + 1, c_x := startX, c_z := startZ\<rparr>
      else cursor)"

fun placeLoop ::
  "nat \<Rightarrow> nat \<Rightarrow> string \<Rightarrow> AisleProduct \<Rightarrow> InventoryProduct \<Rightarrow> nat \<Rightarrow> rat \<Rightarrow> rat \<Rightarrow> rat \<Rightarrow>
   Cursor \<Rightarrow> Placement \<Rightarrow> error + (Cursor \<times> Placement)" where
  "placeLoop 0 nu aisleId aprod invItem targetShelf boxW boxH boxD cursor result = Inr (cursor, result)"
| "placeLoop (Suc n) nu aisleId aprod invItem targetShelf boxW boxH boxD cursor result =
     (let c1 = rowWrap boxW boxD cursor;
          c2 = unitWrap boxD c1
      in if c_z c1 + boxD > endZ \<and> c_unit c2 \<ge> nu then Inr (c2, result)
         else (case emitBox aisleId aprod invItem targetShelf boxW boxH boxD c2 result of
                 Inl e \<Rightarrow> Inl e
               | Inr (c3, r3) \<Rightarrow> placeLoop n nu aisleId aprod invItem targetShelf boxW boxH boxD c3 r3))"

definition defaultDims :: Dimensions where
  "defaultDims = \<lparr>d_width = 1 / 4, d_height = 1 / 5, d_depth = 1 / 5\<rparr>"

definition resolveDims :: "InventoryProduct \<Rightarrow> rat \<times> rat \<times> rat" where
  "resolveDims invItem =
     (let dims = (case boxDimensions invItem of None \<Rightarrow> defaultDims | Some d \<Rightarrow> d)
      in (orNum (d_width dims) (1 / 4), orNum (d_height dims) (1 / 5), orNum (d_depth dims) (1 / 5)))"

definition targetShelfOf :: "AisleProduct \<Rightarrow> nat" where
  "targetShelfOf aprod = (if ap_shelfLevel aprod = 0 then 1 else ap_shelfLevel aprod)"

text \<open>
  The loop over \<open>aisle.products\<close>, in stored order. A product missing from the
  inventory map is skipped; the cursor of the target shelf is read (a fresh one when the
  level has none), run through the inner loop and stored back.
\<close>

fun packProducts ::
  "nat \<Rightarrow> string \<Rightarrow> (string \<rightharpoonup> InventoryProduct) \<Rightarrow> AisleProduct list \<Rightarrow>
   (nat \<rightharpoonup> Cursor) \<Rightarrow> Placement \<Rightarrow> error + Placement" where
  "packProducts nu aisleId inventoryMap [] shelfCursors result = Inr result"
| "packProducts nu aisleId inventoryMap (aprod # rest) shelfCursors result =
     (case inventoryMap (ap_productId aprod) of
        None \<Rightarrow> packProducts nu aisleId inventoryMap rest shelfCursors result
      | Some invItem \<Rightarrow>
          (case resolveDims invItem of (boxW, boxH, boxD) \<Rightarrow>
             (let targetShelf = targetShelfOf aprod;
                  cursor = (case shelfCursors targetShelf of None \<Rightarrow> startCursor | Some c \<Rightarrow> c)
              in case placeLoop (quantityBoxes aprod) nu aisleId aprod invItem targetShelf
                        boxW boxH boxD cursor result of
                   Inl e \<Rightarrow> Inl e
                 | Inr (c', r') \<Rightarrow>
                     packProducts nu aisleId inventoryMap rest (shelfCursors(targetShelf \<mapsto> c')) r')))"

definition pack :: "Aisle \<Rightarrow> (string \<rightharpoonup> InventoryProduct) \<Rightarrow> error + Placement" where
  "pack aisle inventoryMap =
     packProducts (numUnits aisle) (a_id aisle) inventoryMap (products aisle)
       (initCursors (shelves aisle)) (initResult (numUnits aisle) (shelves aisle))"

text \<open>The boxes of one rack unit and shelf level, empty where the maps have no entry.\<close>

definition boxesAt :: "Placement \<Rightarrow> nat \<Rightarrow> nat \<Rightarrow> BoxData list" where
  "boxesAt result u l =
     (case result u of None \<Rightarrow> [] | Some levels \<Rightarrow> (case levels l of None \<Rightarrow> [] | Some bs \<Rightarrow> bs))"

definition placedCount :: "error + Placement \<Rightarrow> nat \<Rightarrow> nat \<Rightarrow> nat" where
  "placedCount r u l = (case r of Inl e \<Rightarrow> 0 | Inr result \<Rightarrow> length (boxesAt result u l))"

section \<open>Vacant spots of a rack unit\<close>

text \<open>
  The centred-rectangle test of \<open>RackUnit\<close>: a box (centre \<open>b_x\<close>, \<open>b_z\<close>) against a
  spot of the held box's size centred at \<open>(spotX, spotZ)\<close>.
\<close>

definition overlapsSpot :: "BoxData \<Rightarrow> Dimensions \<Rightarrow> rat \<Rightarrow> rat \<Rightarrow> bool" where
  "overlapsSpot box vacantSpotSize spotX spotZ \<longleftrightarrow>
     \<bar>b_x box - spotX\<bar> < (b_width box + d_width vacantSpotSize) / 2 \<and>
     \<bar>b_z box - spotZ\<bar> < (b_depth box + d_depth vacantSpotSize) / 2"

text \<open>The same test between two boxes, as the packing postcondition uses it.\<close>

definition footprintsOverlap :: "BoxData \<Rightarrow> BoxData \<Rightarrow> bool" where
  "footprintsOverlap b1 b2 \<longleftrightarrow>
     \<bar>b_x b1 - b_x b2\<bar> < (b_width b1 + b_width b2) / 2 \<and>
     \<bar>b_z b1 - b_z b2\<bar> < (b_depth b1 + b_depth b2) / 2"

text \<open>
  The two nested \<open>for\<close> loops over the grid. They step by the spot size plus the gap, so
  they need not end on every input: the result is \<open>None\<close> when a loop runs forever.
\<close>

partial_function (option) zLoop ::
  "BoxData list \<Rightarrow> Dimensions \<Rightarrow> rat \<Rightarrow> rat \<Rightarrow> (rat \<times> rat) list \<Rightarrow> (rat \<times> rat) list option" where
  "zLoop shelfBoxes vacantSpotSize x z vacantSpots =
     (if z + d_depth vacantSpotSize \<le> endZ
      then zLoop shelfBoxes vacantSpotSize x (z + d_depth vacantSpotSize + BOX_GAP)
             (let spotX = x + d_width vacantSpotSize / 2;
                  spotZ = z + d_depth vacantSpotSize / 2
              in if list_ex (\<lambda>box. overlapsSpot box vacantSpotSize spotX spotZ) shelfBoxes
                 then vacantSpots
                 else vacantSpots @ [(spotX, spotZ)])
      else Some vacantSpots)"

partial_function (option) xLoop ::
  "BoxData list \<Rightarrow> Dimensions \<Rightarrow> rat \<Rightarrow> (rat \<times> rat) list \<Rightarrow> (rat \<times> rat) list option" where
  "xLoop shelfBoxes vacantSpotSize x vacantSpots =
     (if x + d_width vacantSpotSize \<le> endX
      then Option.bind (zLoop shelfBoxes vacantSpotSize x startZ vacantSpots)
             (xLoop shelfBoxes vacantSpotSize (x + d_width vacantSpotSize + BOX_GAP))
      else Some vacantSpots)"

text \<open>
  The vacant spots \<open>RackUnit\<close> computes for one shelf level: the unit's boxes of that
  level without the picked-up ones are the occupied set; nothing is computed unless
  spots are shown and a size is given.
\<close>

definition rackUnitVacantSpots ::
  "(nat \<times> BoxData list) list \<Rightarrow> string set \<Rightarrow> bool \<Rightarrow> Dimensions option \<Rightarrow> nat \<Rightarrow>
   (rat \<times> rat) list option" where
  "rackUnitVacantSpots boxes pickedBoxIds showVacantSpots vacantSpotSize level =
     (let allShelfBoxes = (case find (\<lambda>b. fst b = level) boxes of None \<Rightarrow> [] | Some b \<Rightarrow> snd b);
          shelfBoxes = filter (\<lambda>box. boxId box \<notin> pickedBoxIds) allShelfBoxes
      in case vacantSpotSize of
           None \<Rightarrow> Some []
         | Some sz \<Rightarrow> if showVacantSpots then xLoop shelfBoxes sz startX [] else Some [])"

text \<open>\<open>unitBoxes\<close>: the levels of one unit of the packing result, in insertion order.\<close>

definition unitBoxes :: "Placement \<Rightarrow> nat \<Rightarrow> nat \<Rightarrow> (nat \<times> BoxData list) list" where
  "unitBoxes result sh unitIdx =
     (case result unitIdx of
        None \<Rightarrow> []
      | Some levels \<Rightarrow> map (\<lambda>l. (l, case levels l of None \<Rightarrow> [] | Some bs \<Rightarrow> bs)) [1..<Suc sh])"

datatype RackSide = LeftRack | RightRack

text \<open>
  \<open>AisleRacks\<close> renders two racks per unit: the left one receives the packed boxes of
  the unit, the right one the empty list.
\<close>

definition aisleVacantSpots ::
  "Aisle \<Rightarrow> (string \<rightharpoonup> InventoryProduct) \<Rightarrow> string set \<Rightarrow> bool \<Rightarrow> Dimensions option \<Rightarrow>
   nat \<Rightarrow> RackSide \<Rightarrow> nat \<Rightarrow> error + (rat \<times> rat) list option" where
  "aisleVacantSpots aisle inventoryMap pickedBoxIds showVacantSpots heldBoxSize unitIdx rackSide level =
     (case pack aisle inventoryMap of
        Inl e \<Rightarrow> Inl e
      | Inr result \<Rightarrow>
          Inr (rackUnitVacantSpots
                 (case rackSide of LeftRack \<Rightarrow> unitBoxes result (shelves aisle) unitIdx | RightRack \<Rightarrow> [])
                 pickedBoxIds showVacantSpots heldBoxSize level))"

section \<open>The grab and place handlers of the 3D view\<close>

datatype ControlMode = Orbit | Pan | Walk

record PlacedBoxData =
  pb_id :: string
  pb_aisleId :: string
  pb_unitIndex :: nat
  pb_shelfLevel :: nat
  pb_x :: rat
  pb_z :: rat
  pb_width :: rat
  pb_height :: rat
  pb_depth :: rat
  pb_labelColor :: string
  pb_productId :: string
  pb_productName :: string

text \<open>
  The component state of \<open>Scene3DView\<close> that the handlers read and write. Each handler
  is one atomic step: its local updates are modelled, its persistence calls are not.
\<close>

record ViewState =
  heldBox :: "BoxData option"
  pickedBoxIds :: "string set"
  placedBoxesData :: "PlacedBoxData list"
  pickedUpCount :: nat
  controlMode :: ControlMode
  currentStoreId :: "string option"
  inventory :: "InventoryProduct list"

definition handleGrabBox :: "BoxData \<Rightarrow> ViewState \<Rightarrow> ViewState" where
  "handleGrabBox boxData st =
     st\<lparr>heldBox := Some boxData,
        pickedBoxIds := insert (boxId boxData) (pickedBoxIds st),
        pickedUpCount := pickedUpCount st + 1\<rparr>"

text \<open>\<open>now\<close> is the value of \<open>Date.now()\<close> that names the new record.\<close>

definition handlePlaceBox ::
  "string \<Rightarrow> nat \<Rightarrow> nat \<Rightarrow> rat \<Rightarrow> rat \<Rightarrow> nat \<Rightarrow> ViewState \<Rightarrow> ViewState" where
  "handlePlaceBox aisleId unitIdx shelfLevel x z now st =
     (case heldBox st of
        None \<Rightarrow> st
      | Some held \<Rightarrow>
          if currentStoreId st = None then st
          else st\<lparr>placedBoxesData := placedBoxesData st @
                     [\<lparr>pb_id = ''placed-'' @ string_of_nat now,
                       pb_aisleId = aisleId,
                       pb_unitIndex = unitIdx,
                       pb_shelfLevel = shelfLevel,
                       pb_x = x,
                       pb_z = z,
                       pb_width = b_width held,
                       pb_height = b_height held,
                       pb_depth = b_depth held,
                       pb_labelColor = b_labelColor held,
                       pb_productId = b_productId held,
                       pb_productName = ip_name (b_product held)\<rparr>],
                  heldBox := None\<rparr>)"

definition handleReset :: "ViewState \<Rightarrow> ViewState" where
  "handleReset st =
     st\<lparr>placedBoxesData := [], pickedBoxIds := {}, pickedUpCount := 0, heldBox := None\<rparr>"

definition handleGrabPlacedBox :: "PlacedBoxData \<Rightarrow> ViewState \<Rightarrow> ViewState" where
  "handleGrabPlacedBox placedBox st =
     (if heldBox st \<noteq> None then st
      else case find (\<lambda>p. ip_id p = pb_productId placedBox) (inventory st) of
             None \<Rightarrow> st
           | Some prd \<Rightarrow>
               st\<lparr>placedBoxesData := filter (\<lambda>pb. pb_id pb \<noteq> pb_id placedBox) (placedBoxesData st),
                  heldBox := Some
                    \<lparr>boxId = ''placed-'' @ pb_id placedBox,
                     b_aisleId = pb_aisleId placedBox,
                     b_shelfLevel = pb_shelfLevel placedBox,
                     unitIndex = pb_unitIndex placedBox,
                     b_x = pb_x placedBox,
                     b_z = pb_z placedBox,
                     b_width = pb_width placedBox,
                     b_height = pb_height placedBox,
                     b_depth = pb_depth placedBox,
                     b_labelColor = pb_labelColor placedBox,
                     b_productId = pb_productId placedBox,
                     b_product = prd,
                     quantity = 1\<rparr>\<rparr>)"

text \<open>The three toolbar buttons: only the walk button also clears the held box.\<close>

definition setMode :: "ControlMode \<Rightarrow> ViewState \<Rightarrow> ViewState" where
  "setMode m st =
     (case m of
        Walk \<Rightarrow> st\<lparr>controlMode := Walk, heldBox := None\<rparr>
      | _ \<Rightarrow> st\<lparr>controlMode := m\<rparr>)"

datatype Event =
  GrabBox BoxData
  | PlaceBox string nat nat rat rat nat
  | Reset
  | GrabPlacedBox PlacedBoxData
  | ModeButton ControlMode

fun step :: "Event \<Rightarrow> ViewState \<Rightarrow> ViewState" where
  "step (GrabBox b) st = handleGrabBox b st"
| "step (PlaceBox aisleId unitIdx shelfLevel x z now) st = handlePlaceBox aisleId unitIdx shelfLevel x z now st"
| "step Reset st = handleReset st"
| "step (GrabPlacedBox pb) st = handleGrabPlacedBox pb st"
| "step (ModeButton m) st = setMode m st"

fun run :: "Event list \<Rightarrow> ViewState \<Rightarrow> ViewState" where
  "run [] st = st"
| "run (e # es) st = run es (step e st)"

definition initialView :: "string option \<Rightarrow> InventoryProduct list \<Rightarrow> ViewState" where
  "initialView storeId items =
     \<lparr>heldBox = None, pickedBoxIds = {}, placedBoxesData = [], pickedUpCount = 0,
      controlMode = Orbit, currentStoreId = storeId, inventory = items\<rparr>"

text \<open>The overrides of the session: the placed ones, plus the one in hand.\<close>

definition heldOrPlaced :: "ViewState \<Rightarrow> nat" where
  "heldOrPlaced st = (case heldBox st of None \<Rightarrow> 0 | Some b \<Rightarrow> 1) + length (placedBoxesData st)"

section \<open>Shelf count and aisle defaults\<close>

text \<open>\<open>DEFAULT_AISLE\<close> of the constants module: \<open>height: 3, shelves: 6\<close>.\<close>

definition DEFAULT_AISLE_height :: rat where
  "DEFAULT_AISLE_height = 3"

definition DEFAULT_AISLE_shelves :: nat where
  "DEFAULT_AISLE_shelves = 6"

text \<open>
  \<open>calculateShelfCount\<close>, with its three local constants
  \<open>BOTTOM_CLEARANCE = 0.15\<close>, \<open>MAX_ACCESSIBLE_HEIGHT = 2.1\<close>, \<open>SHELF_SPACING = 0.35\<close>.
\<close>

definition calculateShelfCount :: "rat \<Rightarrow> int" where
  "calculateShelfCount aisleHeight =
     (let BOTTOM_CLEARANCE = 15 / 100;
          MAX_ACCESSIBLE_HEIGHT = 21 / 10;
          SHELF_SPACING = 35 / 100;
          usableHeight = min aisleHeight MAX_ACCESSIBLE_HEIGHT - BOTTOM_CLEARANCE;
          shelfCount = \<lfloor>usableHeight / SHELF_SPACING\<rfloor>
      in max 1 (min 10 shelfCount))"

text \<open>The formula as the specification words it.\<close>

definition shelfCountFormula :: "rat \<Rightarrow> int" where
  "shelfCountFormula h = max 1 (min 10 \<lfloor>(min h (21 / 10) - 15 / 100) / (35 / 100)\<rfloor>)"

text \<open>
  The height and shelf-count fields of the aisle properties panel. A height must parse
  to a positive number and is raised to at least 1; it recomputes the shelf count. The
  shelf-count field takes the parsed integer, raised to at least 1.
\<close>

definition updateHeight :: "rat \<Rightarrow> Aisle \<Rightarrow> Aisle" where
  "updateHeight val aisle =
     (if val > 0
      then aisle\<lparr>a_height := max 1 val, shelves := nat (calculateShelfCount (max 1 val))\<rparr>
      else aisle)"

definition updateShelves :: "int \<Rightarrow> Aisle \<Rightarrow> Aisle" where
  "updateShelves val aisle = aisle\<lparr>shelves := nat (max 1 val)\<rparr>"

section \<open>The mouse handlers of the 2D editor\<close>

record Rect =
  r_x :: rat
  r_z :: rat
  r_width :: rat
  r_length :: rat

record Store =
  s_id :: string
  s_name :: string
  s_width :: rat
  s_depth :: rat

text \<open>
  The state of the 2D editor that the three mouse handlers read and write. The pan
  offset itself is not part of it: the handlers are given world coordinates, which is
  where the offset and the zoom of a press or a move end up.
\<close>

record EditorState =
  isDragging :: bool
  isPanning :: bool
  isResizing :: bool
  dragStart :: "rat \<times> rat"
  currentDragRect :: "Rect option"
  resizeHandle :: "string option"
  resizeAisleId :: "string option"
  originalAisle :: "Aisle option"
  zoom :: rat
  panToolActive :: bool
  selectedAisleId :: "string option"
  editorStoreId :: "string option"
  stores :: "Store list"
  aisles :: "Aisle list"

text \<open>A press: the mouse button, the shift key, and the world position under it.\<close>

record MouseEvent =
  ev_button :: nat
  ev_shiftKey :: bool
  ev_worldPos :: "rat \<times> rat"

text \<open>\<open>Math.round\<close> is \<open>\<lfloor>v + 1/2\<rfloor>\<close>, which is \<open>round\<close>.\<close>

definition snap :: "rat \<Rightarrow> rat" where
  "snap val = of_int (round val)"

definition getCurrentStore :: "EditorState \<Rightarrow> Store option" where
  "getCurrentStore st = find (\<lambda>s. Some (s_id s) = editorStoreId st) (stores st)"

definition getCurrentAisles :: "EditorState \<Rightarrow> Aisle list" where
  "getCurrentAisles st = filter (\<lambda>a. Some (a_storeId a) = editorStoreId st) (aisles st)"

text \<open>
  \<open>getResizeHandle\<close>: the handle of an aisle near a world position, corners before
  edges, within \<open>0.8 / zoom\<close>.
\<close>

definition getResizeHandle :: "rat \<Rightarrow> rat \<times> rat \<Rightarrow> Aisle \<Rightarrow> string option" where
  "getResizeHandle zm worldPos aisle =
     (let handleSize = (8 / 10) / zm;
          left = a_x aisle; right = a_x aisle + a_width aisle;
          top = a_z aisle; bottom = a_z aisle + a_length aisle;
          x = fst worldPos; z = snd worldPos
      in if \<bar>x - left\<bar> < handleSize \<and> \<bar>z - top\<bar> < handleSize then Some ''nw''
         else if \<bar>x - right\<bar> < handleSize \<and> \<bar>z - top\<bar> < handleSize then Some ''ne''
         else if \<bar>x - left\<bar> < handleSize \<and> \<bar>z - bottom\<bar> < handleSize then Some ''sw''
         else if \<bar>x - right\<bar> < handleSize \<and> \<bar>z - bottom\<bar> < handleSize then Some ''se''
         else if \<bar>z - top\<bar> < handleSize \<and> x > left \<and> x < right then Some ''n''
         else if \<bar>z - bottom\<bar> < handleSize \<and> x > left \<and> x < right then Some ''s''
         else if \<bar>x - left\<bar> < handleSize \<and> z > top \<and> z < bottom then Some ''w''
         else if \<bar>x - right\<bar> < handleSize \<and> z > top \<and> z < bottom then Some ''e''
         else None)"

text \<open>
  The first check of a press: the selected aisle, if it is one of the store's aisles and
  the press is on one of its handles, with that handle.
\<close>

definition resizeHit :: "rat \<times> rat \<Rightarrow> EditorState \<Rightarrow> (Aisle \<times> string) option" where
  "resizeHit worldPos st =
     (case selectedAisleId st of
        None \<Rightarrow> None
      | Some sel \<Rightarrow>
          (case find (\<lambda>a. a_id a = sel) (getCurrentAisles st) of
             None \<Rightarrow> None
           | Some selectedAisle \<Rightarrow>
               map_option (Pair selectedAisle) (getResizeHandle (zoom st) worldPos selectedAisle)))"

text \<open>The hit test of \<open>handleMouseDown\<close> scans the aisles from the last to the first.\<close>

definition clickedAisle :: "rat \<times> rat \<Rightarrow> Aisle list \<Rightarrow> Aisle option" where
  "clickedAisle worldPos currentAisles =
     find (\<lambda>a. fst worldPos \<ge> a_x a \<and> fst worldPos \<le> a_x a + a_width a \<and>
               snd worldPos \<ge> a_z a \<and> snd worldPos \<le> a_z a + a_length a)
          (rev currentAisles)"

text \<open>
  \<open>handleMouseDown\<close>: a middle-button press, a shifted left press or any press with the
  pan tool starts panning; otherwise a press on a handle of the selected aisle starts a
  resize; otherwise a press on an aisle selects it and a press on free floor starts a
  drag at the snapped position.
\<close>

definition handleMouseDown :: "MouseEvent \<Rightarrow> EditorState \<Rightarrow> EditorState" where
  "handleMouseDown e st =
     (if ev_button e = 1 \<or> (ev_button e = 0 \<and> ev_shiftKey e) \<or> panToolActive st
      then st\<lparr>isPanning := True\<rparr>
      else case getCurrentStore st of
             None \<Rightarrow> st
           | Some currentStore \<Rightarrow>
               (case resizeHit (ev_worldPos e) st of
                  Some (selectedAisle, handle) \<Rightarrow>
                    st\<lparr>isResizing := True, resizeHandle := Some handle,
                       resizeAisleId := selectedAisleId st, originalAisle := Some selectedAisle\<rparr>
                | None \<Rightarrow>
                    (case clickedAisle (ev_worldPos e) (getCurrentAisles st) of
                       Some a \<Rightarrow> st\<lparr>selectedAisleId := Some (a_id a), isDragging := False\<rparr>
                     | None \<Rightarrow>
                         st\<lparr>selectedAisleId := None, isDragging := True,
                            dragStart := (snap (fst (ev_worldPos e)), snap (snd (ev_worldPos e)))\<rparr>)))"

text \<open>
  The preview of a resize: only the edges named by the handle move, the opposite edges
  stay, and each side is at least 1.
\<close>

definition resizePreview :: "string \<Rightarrow> Aisle \<Rightarrow> rat \<times> rat \<Rightarrow> Rect" where
  "resizePreview handle orig worldPos =
     (let currentX = snap (fst worldPos);
          currentZ = snap (snd worldPos);
          newZ = (if CHR ''n'' \<in> set handle then min currentZ (a_z orig + a_length orig - 1)
                  else a_z orig);
          newLength1 = (if CHR ''n'' \<in> set handle then a_length orig - (newZ - a_z orig)
                        else a_length orig);
          newLength = (if CHR ''s'' \<in> set handle then max 1 (currentZ - a_z orig) else newLength1);
          newX = (if CHR ''w'' \<in> set handle then min currentX (a_x orig + a_width orig - 1)
                  else a_x orig);
          newWidth1 = (if CHR ''w'' \<in> set handle then a_width orig - (newX - a_x orig)
                       else a_width orig);
          newWidth = (if CHR ''e'' \<in> set handle then max 1 (currentX - a_x orig) else newWidth1)
      in \<lparr>r_x = newX, r_z = newZ, r_width = max 1 newWidth, r_length = max 1 newLength\<rparr>)"

text \<open>
  \<open>handleMouseMove\<close>: nothing but the pan offset changes while panning; a resize in
  progress updates its preview; otherwise a drag in progress updates the rectangle
  between the start and the snapped position. JavaScript \<open>w || 1\<close>: a zero span
  becomes 1.
\<close>

definition handleMouseMove :: "rat \<times> rat \<Rightarrow> EditorState \<Rightarrow> EditorState" where
  "handleMouseMove worldPos st =
     (if isPanning st then st
      else case (isResizing st, originalAisle st, resizeHandle st) of
        (True, Some orig, Some handle) \<Rightarrow>
          st\<lparr>currentDragRect := Some (resizePreview handle orig worldPos)\<rparr>
      | _ \<Rightarrow>
          if \<not> isDragging st then st
          else let currentX = snap (fst worldPos);
                   currentZ = snap (snd worldPos);
                   x = min (fst (dragStart st)) currentX;
                   z = min (snd (dragStart st)) currentZ;
                   w = \<bar>currentX - fst (dragStart st)\<bar>;
                   l = \<bar>currentZ - snd (dragStart st)\<bar>
               in st\<lparr>currentDragRect :=
                       Some \<lparr>r_x = x, r_z = z, r_width = orNum w 1, r_length = orNum l 1\<rparr>\<rparr>)"

definition MIN_SIZE :: rat where
  "MIN_SIZE = 1"

definition rectOverlapsAisle :: "Rect \<Rightarrow> Aisle \<Rightarrow> bool" where
  "rectOverlapsAisle rect aisle \<longleftrightarrow>
     (let newLeft = r_x rect; newRight = r_x rect + r_width rect;
          newTop = r_z rect; newBottom = r_z rect + r_length rect;
          existingLeft = a_x aisle; existingRight = a_x aisle + a_width aisle;
          existingTop = a_z aisle; existingBottom = a_z aisle + a_length aisle
      in \<not> (newRight \<le> existingLeft \<or> newLeft \<ge> existingRight \<or>
             newBottom \<le> existingTop \<or> newTop \<ge> existingBottom))"

definition newAisle :: "string \<Rightarrow> string \<Rightarrow> nat \<Rightarrow> Rect \<Rightarrow> Aisle" where
  "newAisle aisleId storeId n rect =
     \<lparr>a_id = aisleId, a_storeId = storeId, a_name = ''Aisle '' @ string_of_nat (n + 1),
      a_x = r_x rect, a_z = r_z rect, a_width = r_width rect, a_length = r_length rect,
      a_height = DEFAULT_AISLE_height, shelves = DEFAULT_AISLE_shelves, products = []\<rparr>"

text \<open>
  The resize branch of \<open>handleMouseUp\<close>. The preview is stored on the resized aisle
  when it lies in the store, has sides of at least 1, overlaps no other aisle and the
  persistence call succeeds; the resize state is cleared in every case.
\<close>

definition commitResize :: "bool \<Rightarrow> Rect \<Rightarrow> string \<Rightarrow> EditorState \<Rightarrow> EditorState" where
  "commitResize saved rect rid st =
     (let applied =
        (case getCurrentStore st of
           None \<Rightarrow> st
         | Some currentStore \<Rightarrow>
             (let isValid = (r_x rect \<ge> 0 \<and> r_z rect \<ge> 0 \<and>
                             r_x rect + r_width rect \<le> s_width currentStore \<and>
                             r_z rect + r_length rect \<le> s_depth currentStore \<and>
                             r_width rect \<ge> 1 \<and> r_length rect \<ge> 1);
                  overlaps = list_ex (\<lambda>aisle. a_id aisle \<noteq> rid \<and> rectOverlapsAisle rect aisle)
                               (getCurrentAisles st)
              in if isValid \<and> \<not> overlaps \<and> saved
                 then st\<lparr>aisles := map (\<lambda>aisle. if a_id aisle = rid
                                                 then aisle\<lparr>a_x := r_x rect, a_z := r_z rect,
                                                           a_width := r_width rect,
                                                           a_length := r_length rect\<rparr>
                                                 else aisle) (aisles st)\<rparr>
                 else st))
      in applied\<lparr>isResizing := False, resizeHandle := None, resizeAisleId := None,
                 originalAisle := None, currentDragRect := None\<rparr>)"

text \<open>
  The create branch of \<open>handleMouseUp\<close>, and what follows it: the drag and pan flags
  are cleared. \<open>created\<close> is what the persistence call \<open>createAisle\<close> gives: the id of
  the stored aisle, or \<open>None\<close> when it throws, in which case the aisle is not added to
  the local state either.
\<close>

definition commitCreate :: "string option \<Rightarrow> EditorState \<Rightarrow> EditorState" where
  "commitCreate created st =
     (case (isDragging st, currentDragRect st, editorStoreId st) of
        (True, Some rect, Some storeId) \<Rightarrow>
          (case getCurrentStore st of
             None \<Rightarrow> st\<lparr>currentDragRect := None, isDragging := False, isPanning := False\<rparr>
           | Some currentStore \<Rightarrow>
               if r_width rect < MIN_SIZE \<or> r_length rect < MIN_SIZE
               then st\<lparr>currentDragRect := None, isDragging := False, isPanning := False\<rparr>
               else if r_x rect < 0 \<or> r_z rect < 0 \<or>
                       r_x rect + r_width rect > s_width currentStore \<or>
                       r_z rect + r_length rect > s_depth currentStore
               then st\<lparr>currentDragRect := None, isDragging := False, isPanning := False\<rparr>
               else if list_ex (rectOverlapsAisle rect) (getCurrentAisles st)
               then st\<lparr>currentDragRect := None, isDragging := False, isPanning := False\<rparr>
               else (case created of
                       None \<Rightarrow>
                         st\<lparr>currentDragRect := None, isDragging := False, isPanning := False\<rparr>
                     | Some aisleId \<Rightarrow>
                         st\<lparr>aisles := aisles st @
                                [newAisle aisleId storeId (length (getCurrentAisles st)) rect],
                            currentDragRect := None, isDragging := False, isPanning := False\<rparr>))
      | _ \<Rightarrow> st\<lparr>isDragging := False, isPanning := False\<rparr>)"

text \<open>
  \<open>handleMouseUp\<close>: a resize with a preview, a resized aisle and a current store is
  completed and the handler returns; every other release goes through the create
  branch. For a resize the persistence call is \<open>updateAisle\<close>, which returns nothing:
  it counts as saved when \<open>created\<close> is not \<open>None\<close>.
\<close>

definition handleMouseUp :: "string option \<Rightarrow> EditorState \<Rightarrow> EditorState" where
  "handleMouseUp created st =
     (case (isResizing st, currentDragRect st, resizeAisleId st, editorStoreId st) of
        (True, Some rect, Some rid, Some storeId) \<Rightarrow> commitResize (created \<noteq> None) rect rid st
      | _ \<Rightarrow> commitCreate created st)"

section \<open>Concrete stores used in the checks\<close>

text \<open>
  An inventory product with the given id and box dimensions, an allocation of it to a
  shelf level, and an aisle of the given length, shelf count and allocations. The sizes
  \<open>largeItem\<close>, \<open>mediumItem\<close> and \<open>smallItem\<close> are the presets of the inventory form
  (width, height, depth): 0.40 x 0.35 x 0.25, 0.25 x 0.25 x 0.15 and 0.15 x 0.15 x 0.10.
\<close>

definition boxItem :: "string \<Rightarrow> rat \<Rightarrow> rat \<Rightarrow> rat \<Rightarrow> InventoryProduct" where
  "boxItem pid w h d =
     \<lparr>ip_id = pid, ip_userId = ''user'', ip_name = pid, ip_sku = [], ip_category = [],
      boxDimensions = Some \<lparr>d_width = w, d_height = h, d_depth = d\<rparr>, itemsPerBox = 1,
      ip_labelColor = [], pricePerItem = 1, totalBoxesStock = 100\<rparr>"

definition allocation :: "string \<Rightarrow> nat \<Rightarrow> nat \<Rightarrow> AisleProduct" where
  "allocation pid qty level =
     \<lparr>ap_id = ''aprod'', ap_productId = pid, ap_aisleId = ''A'', quantityBoxes = qty,
      ap_shelfLevel = level, ap_position = 0\<rparr>"

definition rackAisle :: "rat \<Rightarrow> nat \<Rightarrow> AisleProduct list \<Rightarrow> Aisle" where
  "rackAisle len sh ps =
     \<lparr>a_id = ''A'', a_storeId = ''S'', a_name = ''Aisle 1'', a_x = 0, a_z = 0, a_width = 4,
      a_length = len, a_height = 3, shelves = sh, products = ps\<rparr>"

definition largeItem :: InventoryProduct where
  "largeItem = boxItem ''large'' (40 / 100) (35 / 100) (25 / 100)"

definition mediumItem :: InventoryProduct where
  "mediumItem = boxItem ''medium'' (25 / 100) (25 / 100) (15 / 100)"

definition smallItem :: InventoryProduct where
  "smallItem = boxItem ''small'' (15 / 100) (15 / 100) (10 / 100)"

text \<open>
  One rack unit, one shelf: sixteen large boxes (fifteen fit), then one more large box
  allocated to the same shelf.
\<close>

definition exhaustedAisle :: Aisle where
  "exhaustedAisle = rackAisle 3 1 [allocation ''large'' 16 1, allocation ''large'' 1 1]"

text \<open>One rack unit, one shelf: a large box, then eleven small ones on the same shelf.\<close>

definition mixedAisle :: Aisle where
  "mixedAisle = rackAisle 3 1 [allocation ''large'' 1 1, allocation ''small'' 11 1]"

text \<open>
  The end-to-end scenario: length 6, one shelf, fifty boxes of 0.25 x 0.2 x 0.2 on
  shelf level 1.
\<close>

definition scenarioItem :: InventoryProduct where
  "scenarioItem = boxItem ''p'' (25 / 100) (2 / 10) (2 / 10)"

definition scenarioAisle :: Aisle where
  "scenarioAisle = rackAisle 6 1 [allocation ''p'' 50 1]"

text \<open>
  What \<open>Scene3DView\<close> and \<open>Scene\<close> hand down for the vacant spots: the inventory map
  (built by a reduce in which a later product of the same id wins), the size of the
  held box, and spots shown only in walk mode with a box in hand. The placed boxes of
  the state are rendered by \<open>Scene\<close> itself and are not passed to the racks.
\<close>

definition inventoryMapOf :: "InventoryProduct list \<Rightarrow> (string \<rightharpoonup> InventoryProduct)" where
  "inventoryMapOf items = map_of (rev (map (\<lambda>p. (ip_id p, p)) items))"

definition heldBoxSize :: "ViewState \<Rightarrow> Dimensions option" where
  "heldBoxSize st =
     map_option (\<lambda>b. \<lparr>d_width = b_width b, d_height = b_height b, d_depth = b_depth b\<rparr>) (heldBox st)"

definition sceneVacantSpots ::
  "ViewState \<Rightarrow> Aisle \<Rightarrow> nat \<Rightarrow> RackSide \<Rightarrow> nat \<Rightarrow> error + (rat \<times> rat) list option" where
  "sceneVacantSpots st aisle unitIdx rackSide level =
     aisleVacantSpots aisle (inventoryMapOf (inventory st)) (pickedBoxIds st)
       (heldBox st \<noteq> None \<and> controlMode st = Walk) (heldBoxSize st) unitIdx rackSide level"

text \<open>The centred-rectangle test between a placed box and a spot of the given size.\<close>

definition overlapsPlaced :: "PlacedBoxData \<Rightarrow> Dimensions \<Rightarrow> rat \<Rightarrow> rat \<Rightarrow> bool" where
  "overlapsPlaced pb sz spotX spotZ \<longleftrightarrow>
     \<bar>pb_x pb - spotX\<bar> < (pb_width pb + d_width sz) / 2 \<and>
     \<bar>pb_z pb - spotZ\<bar> < (pb_depth pb + d_depth sz) / 2"

text \<open>
  A one-unit, one-shelf aisle with two large boxes; \<open>sampleBox\<close> and \<open>secondBox\<close> are the
  two placements the packer computes for it. In \<open>secondGrab\<close> the first box has been
  grabbed in walk mode and placed on the first spot of shelf 1 in unit 0
  (\<open>placedSample\<close> is the record this creates), and the second box is in hand.
\<close>

definition vacancyAisle :: Aisle where
  "vacancyAisle = rackAisle 3 1 [allocation ''large'' 2 1]"

definition sampleBox :: BoxData where
  "sampleBox =
     \<lparr>boxId = ''A-large-1-0-0'', b_aisleId = ''A'', b_shelfLevel = 1, unitIndex = 0,
      b_x = - 21 / 20, b_z = - 3 / 8, b_width = 40 / 100, b_height = 35 / 100,
      b_depth = 25 / 100, b_labelColor = ''#3B82F6'', b_productId = ''large'',
      b_product = largeItem, quantity = 2\<rparr>"

definition secondBox :: BoxData where
  "secondBox = sampleBox\<lparr>boxId := ''A-large-1-0-1'', b_x := - 3 / 5\<rparr>"

definition placedSample :: PlacedBoxData where
  "placedSample =
     \<lparr>pb_id = ''placed-1000'', pb_aisleId = ''A'', pb_unitIndex = 0, pb_shelfLevel = 1,
      pb_x = - 21 / 20, pb_z = - 3 / 8, pb_width = 40 / 100, pb_height = 35 / 100,
      pb_depth = 25 / 100, pb_labelColor = ''#3B82F6'', pb_productId = ''large'',
      pb_productName = ''large''\<rparr>"

definition secondGrab :: ViewState where
  "secondGrab =
     run [ModeButton Walk, GrabBox sampleBox, PlaceBox ''A'' 0 1 (- 21 / 20) (- 3 / 8) 1000,
          GrabBox secondBox]
       (initialView (Some ''S'') [largeItem])"

text \<open>
  The grab and place protocol of the specification, as a condition on one event: a box
  is grabbed only with an empty hand and only once, a placed box that is grabbed again
  is one of the placed boxes, a placement gets a fresh timestamp, and the walk button is
  not pressed with a box in hand. \<open>accounted\<close> is the accounting the session keeps
  under this protocol.
\<close>

fun disciplined :: "Event \<Rightarrow> ViewState \<Rightarrow> bool" where
  "disciplined (GrabBox b) st = (heldBox st = None \<and> boxId b \<notin> pickedBoxIds st)"
| "disciplined (PlaceBox aisleId unitIdx shelfLevel x z now) st =
     (''placed-'' @ string_of_nat now \<notin> pb_id ` set (placedBoxesData st))"
| "disciplined Reset st = True"
| "disciplined (GrabPlacedBox pb) st = (pb \<in> set (placedBoxesData st))"
| "disciplined (ModeButton m) st = (m \<noteq> Walk \<or> heldBox st = None)"

fun disciplinedRun :: "Event list \<Rightarrow> ViewState \<Rightarrow> bool" where
  "disciplinedRun [] st = True"
| "disciplinedRun (e # es) st = (disciplined e st \<and> disciplinedRun es (step e st))"

definition accounted :: "ViewState \<Rightarrow> bool" where
  "accounted st \<longleftrightarrow>
     finite (pickedBoxIds st) \<and> distinct (map pb_id (placedBoxesData st)) \<and>
     card (pickedBoxIds st) = heldOrPlaced st"

definition droppedInWalk :: ViewState where
  "droppedInWalk =
     run [ModeButton Walk, GrabBox sampleBox, ModeButton Walk] (initialView (Some ''S'') [largeItem])"

definition regrabRun :: "Event list" where
  "regrabRun =
     [ModeButton Walk, GrabBox sampleBox, PlaceBox ''A'' 0 1 (- 21 / 20) (- 3 / 8) 1000,
      GrabPlacedBox placedSample, PlaceBox ''A'' 0 1 (- 3 / 5) (- 3 / 8) 1001]"


definition leftPress :: "rat \<times> rat \<Rightarrow> MouseEvent" where
  "leftPress p = \<lparr>ev_button = 0, ev_shiftKey = False, ev_worldPos = p\<rparr>"

definition dragCreate ::
  "rat \<times> rat \<Rightarrow> rat \<times> rat \<Rightarrow> string option \<Rightarrow> EditorState \<Rightarrow> EditorState" where
  "dragCreate p0 p1 created st =
     handleMouseUp created (handleMouseMove p1 (handleMouseDown (leftPress p0) st))"


text \<open>
  A 30 x 30 store at zoom 1, empty, and with one aisle at (0, 0) of 10 x 10 that is
  selected.
\<close>

definition editorStore :: Store where
  "editorStore = \<lparr>s_id = ''S'', s_name = ''Shop'', s_width = 30, s_depth = 30\<rparr>"

definition squareAisle :: Aisle where
  "squareAisle = newAisle ''a0'' ''S'' 0 \<lparr>r_x = 0, r_z = 0, r_width = 10, r_length = 10\<rparr>"

definition emptyEditor :: EditorState where
  "emptyEditor =
     \<lparr>isDragging = False, isPanning = False, isResizing = False, dragStart = (0, 0),
      currentDragRect = None, resizeHandle = None, resizeAisleId = None, originalAisle = None,
      zoom = 1, panToolActive = False, selectedAisleId = None,
      editorStoreId = Some ''S'', stores = [editorStore], aisles = []\<rparr>"

definition oneAisleEditor :: EditorState where
  "oneAisleEditor = emptyEditor\<lparr>aisles := [squareAisle], selectedAisleId := Some ''a0''\<rparr>"

text \<open>
  The postconditions of packing. \<open>withinUsableArea\<close>: the footprint, measured from its
  min corner, lies in the usable shelf area. \<open>fitsShelf\<close>: the resolved width and depth
  are positive and at most 2.5 and 1.0, the sides of that area. \<open>levelBoxes\<close>: the
  boxes of one shelf level over the units \<open>0 .. nu - 1\<close>, in unit order.
\<close>

definition withinUsableArea :: "BoxData \<Rightarrow> bool" where
  "withinUsableArea b \<longleftrightarrow>
     startX \<le> b_x b - b_width b / 2 \<and> b_x b - b_width b / 2 \<le> endX - b_width b \<and>
     startZ \<le> b_z b - b_depth b / 2 \<and> b_z b - b_depth b / 2 \<le> endZ - b_depth b"

definition fitsShelf :: "InventoryProduct \<Rightarrow> bool" where
  "fitsShelf invItem =
     (case resolveDims invItem of
        (boxW, boxH, boxD) \<Rightarrow> 0 < boxW \<and> boxW \<le> 5 / 2 \<and> 0 < boxD \<and> boxD \<le> 1)"

definition levelBoxes :: "Placement \<Rightarrow> nat \<Rightarrow> nat \<Rightarrow> BoxData list" where
  "levelBoxes result nu l = concat (map (\<lambda>u. boxesAt result u l) [0..<nu])"

definition nthBoxAt :: "error + Placement \<Rightarrow> nat \<Rightarrow> nat \<Rightarrow> nat \<Rightarrow> BoxData option" where
  "nthBoxAt r u l k =
     (case r of
        Inl e \<Rightarrow> None
      | Inr result \<Rightarrow> if k < length (boxesAt result u l) then Some (boxesAt result u l ! k) else None)"

text \<open>A product whose stored box width is negative, twice on one shelf.\<close>

definition negativeItem :: InventoryProduct where
  "negativeItem = boxItem ''neg'' (- 1) (2 / 10) (2 / 10)"

definition negativeAisle :: Aisle where
  "negativeAisle = rackAisle 3 1 [allocation ''neg'' 2 1]"

text \<open>
  The loop invariant of one shelf level \<open>l\<close> with cursor \<open>c\<close>: the counter is the number
  of boxes of the level, no box of the level lies in a unit after the cursor's, the ids
  follow the sequence, and each box records where it sits.
\<close>

definition levelInv :: "nat \<Rightarrow> string \<Rightarrow> nat \<Rightarrow> Cursor \<Rightarrow> Placement \<Rightarrow> bool" where
  "levelInv nu aid l c r \<longleftrightarrow>
     boxIdx c = length (levelBoxes r nu l) \<and>
     (\<forall>u. boxesAt r u l \<noteq> [] \<longrightarrow> u \<le> c_unit c) \<and>
     (\<forall>k < length (levelBoxes r nu l).
        boxId (levelBoxes r nu l ! k) =
          mkBoxId aid (b_productId (levelBoxes r nu l ! k)) l (unitIndex (levelBoxes r nu l ! k)) k) \<and>
     (\<forall>u. \<forall>b\<in>set (boxesAt r u l). unitIndex b = u \<and> b_shelfLevel b = l \<and> b_aisleId b = aid \<and> u < nu)"

section \<open>Evaluating the packer\<close>

lemma placeLoop_pos:
  "0 < n \<Longrightarrow> placeLoop n nu aisleId aprod invItem targetShelf boxW boxH boxD cursor result =
     (let c1 = rowWrap boxW boxD cursor;
          c2 = unitWrap boxD c1
      in if c_z c1 + boxD > endZ \<and> c_unit c2 \<ge> nu then Inr (c2, result)
         else (case emitBox aisleId aprod invItem targetShelf boxW boxH boxD c2 result of
                 Inl e \<Rightarrow> Inl e
               | Inr (c3, r3) \<Rightarrow>
                   placeLoop (n - 1) nu aisleId aprod invItem targetShelf boxW boxH boxD c3 r3))"
  by (cases n) (auto simp: Let_def split: sum.splits)

lemmas geometry_defs = startX_def startZ_def endX_def endZ_def POST_SIZE_def BOX_GAP_def
  rackWidth_def rackDepth_def

lemmas pack_defs = pack_def numUnits_def initCursors_def initResult_def resolveDims_def
  orNum_def orStr_def targetShelfOf_def startCursor_def rowWrap_def unitWrap_def emitBox_def
  boxAtCursor_def boxesAt_def Let_def

lemmas boxId_defs = mkBoxId_def string_of_nat.simps digit_char_def

lemmas scenario_defs = boxItem_def allocation_def rackAisle_def largeItem_def mediumItem_def
  smallItem_def

lemma usable_area: "startX = - 5 / 4" "endX = 5 / 4" "startZ = - 1 / 2" "endZ = 1 / 2"
  by (simp_all add: geometry_defs)

section \<open>Capacity overflow and a later product on an exhausted shelf\<close>

text \<open>
  C1. As long as one allocation overflows a shelf level, the excess is dropped without an
  error: sixteen large boxes on a one-unit shelf give fifteen placements. A later
  allocation to the same, exhausted shelf level does not end silently: the cursor was
  moved to the start of unit 1 before the loop broke, so the fit checks pass and the
  push reads the missing unit 1 of the result, which throws.
\<close>

theorem pack_throws_on_exhausted_shelf:
  "placedCount (pack (rackAisle 3 1 [allocation ''large'' 16 1]) [''large'' \<mapsto> largeItem]) 0 1 = 15 \<and>
   pack exhaustedAisle [''large'' \<mapsto> largeItem] = Inl TypeError"
  by (simp add: placedCount_def exhaustedAisle_def scenario_defs pack_defs geometry_defs
      placeLoop_pos boxId_defs)

section \<open>Overlap of boxes of different depth\<close>

text \<open>
  C2. With a large box followed by eleven small boxes on one shelf level, the packer
  returns twelve placements in unit 0, and the first (the large box) and the last (the
  small box that starts the second row) overlap under the centred-rectangle test: a new
  row starts one depth of the current box behind the previous row, not behind the
  deepest box of that row.
\<close>

theorem pack_overlap_mixed_depths:
  "case pack mixedAisle [''large'' \<mapsto> largeItem, ''small'' \<mapsto> smallItem] of
     Inl e \<Rightarrow> False
   | Inr result \<Rightarrow>
       length (boxesAt result 0 1) = 12 \<and>
       footprintsOverlap (boxesAt result 0 1 ! 0) (boxesAt result 0 1 ! 11)"
  by (simp add: mixedAisle_def scenario_defs pack_defs geometry_defs placeLoop_pos boxId_defs
      footprintsOverlap_def)

section \<open>The end-to-end capacity scenario\<close>

lemma scenario_pack:
  "case pack scenarioAisle [''p'' \<mapsto> scenarioItem] of
     Inl e \<Rightarrow> False
   | Inr result \<Rightarrow> length (boxesAt result 0 1) = 32 \<and> length (boxesAt result 1 1) = 18"
  by (simp add: scenarioAisle_def scenarioItem_def scenario_defs pack_defs geometry_defs
      placeLoop_pos boxId_defs)

lemma scenario_counts:
  "placedCount (pack scenarioAisle [''p'' \<mapsto> scenarioItem]) 0 1 = 32"
  "placedCount (pack scenarioAisle [''p'' \<mapsto> scenarioItem]) 1 1 = 18"
  using scenario_pack
  by (auto simp: placedCount_def split: sum.splits)

text \<open>
  C3, as stated: fewer than fifty boxes are placed. This fails: a unit's shelf holds
  four rows of eight such boxes, so the two units hold sixty-four.
\<close>

theorem scenario_total_not_below_50:
  "\<not> (placedCount (pack scenarioAisle [''p'' \<mapsto> scenarioItem]) 0 1 +
       placedCount (pack scenarioAisle [''p'' \<mapsto> scenarioItem]) 1 1 < 50)"
  using scenario_counts by simp

text \<open>
  C3, amended. The aisle has two rack units; the packer fills unit 0 with 32 boxes,
  continues into unit 1 with the remaining 18, and places all fifty: both units receive
  boxes and nothing is dropped.
\<close>

theorem scenario_places_all_50:
  "numUnits scenarioAisle = 2 \<and>
   placedCount (pack scenarioAisle [''p'' \<mapsto> scenarioItem]) 0 1 = 32 \<and>
   placedCount (pack scenarioAisle [''p'' \<mapsto> scenarioItem]) 1 1 = 18 \<and>
   placedCount (pack scenarioAisle [''p'' \<mapsto> scenarioItem]) 0 1 +
   placedCount (pack scenarioAisle [''p'' \<mapsto> scenarioItem]) 1 1 = 50"
proof -
  have "numUnits scenarioAisle = 2"
    by (simp add: numUnits_def scenarioAisle_def rackAisle_def rackWidth_def)
  then show ?thesis
    using scenario_counts by simp
qed

section \<open>Vacant spots and placed boxes\<close>

lemma vacancy_packed_boxes:
  "case pack vacancyAisle [''large'' \<mapsto> largeItem] of
     Inl e \<Rightarrow> False
   | Inr r \<Rightarrow> boxesAt r 0 1 = [sampleBox, secondBox]"
  by (simp add: vacancyAisle_def scenario_defs pack_defs geometry_defs placeLoop_pos boxId_defs
      sampleBox_def secondBox_def)

lemma secondGrab_state:
  "placedBoxesData secondGrab = [placedSample]"
  "heldBox secondGrab = Some secondBox"
  "controlMode secondGrab = Walk"
  "inventory secondGrab = [largeItem]"
  "pickedBoxIds secondGrab = {''A-large-1-0-0'', ''A-large-1-0-1''}"
  by (auto simp add: secondGrab_def initialView_def setMode_def handleGrabBox_def
      handlePlaceBox_def placedSample_def sampleBox_def secondBox_def boxId_defs scenario_defs)

text \<open>The spots offered do not depend on the placed boxes of the state.\<close>

lemma vacant_spots_ignore_placed_boxes:
  "sceneVacantSpots (st\<lparr>placedBoxesData := pbs\<rparr>) aisle unitIdx rackSide level =
   sceneVacantSpots st aisle unitIdx rackSide level"
  by (simp add: sceneVacantSpots_def heldBoxSize_def)

text \<open>
  C5. The first packed box has been moved to the first spot of shelf 1 in unit 0, and a
  second box of the same size is in hand. The vacant spots offered for the right rack of
  that unit and shelf still contain the spot of the placed box, whose footprint the
  candidate overlaps under the centred-rectangle test: the occupied set of a rack is
  the packed boxes handed to it (none for a right rack), never the placed boxes.
\<close>

theorem vacant_spot_over_placed_box:
  "placedBoxesData secondGrab = [placedSample] \<and>
   pb_unitIndex placedSample = 0 \<and> pb_shelfLevel placedSample = 1 \<and>
   heldBoxSize secondGrab = Some \<lparr>d_width = 40 / 100, d_height = 35 / 100, d_depth = 25 / 100\<rparr> \<and>
   overlapsPlaced placedSample \<lparr>d_width = 40 / 100, d_height = 35 / 100, d_depth = 25 / 100\<rparr>
     (- 21 / 20) (- 3 / 8) \<and>
   (case sceneVacantSpots secondGrab vacancyAisle 0 RightRack 1 of
      Inr (Some spots) \<Rightarrow> (- 21 / 20, - 3 / 8) \<in> set spots
    | _ \<Rightarrow> False)"
proof -
  have "case sceneVacantSpots secondGrab vacancyAisle 0 RightRack 1 of
      Inr (Some spots) \<Rightarrow> (- 21 / 20, - 3 / 8) \<in> set spots
    | _ \<Rightarrow> False"
    by (simp add: sceneVacantSpots_def aisleVacantSpots_def secondGrab_state heldBoxSize_def
        inventoryMapOf_def rackUnitVacantSpots_def xLoop.simps zLoop.simps
        vacancyAisle_def scenario_defs pack_defs geometry_defs placeLoop_pos boxId_defs
        secondBox_def sampleBox_def)
  moreover have "overlapsPlaced placedSample
      \<lparr>d_width = 40 / 100, d_height = 35 / 100, d_depth = 25 / 100\<rparr> (- 21 / 20) (- 3 / 8)"
    by (simp add: overlapsPlaced_def placedSample_def)
  moreover have "heldBoxSize secondGrab =
      Some \<lparr>d_width = 40 / 100, d_height = 35 / 100, d_depth = 25 / 100\<rparr>"
    by (simp add: heldBoxSize_def secondGrab_state secondBox_def sampleBox_def)
  ultimately show ?thesis
    by (simp add: secondGrab_state placedSample_def)
qed

section \<open>Drag-creation: commit, overlap and minimum size\<close>



lemma snap_values:
  "snap 0 = 0" "snap 2 = 2" "snap 5 = 5" "snap 10 = 10" "snap 15 = 15" "snap 20 = 20"
  "snap (11 / 5) = 2" "snap (21 / 10) = 2"
  by (simp_all add: snap_def round_def floor_eq_iff)









lemmas editor_defs = handleMouseDown_def handleMouseMove_def handleMouseUp_def commitCreate_def
  commitResize_def resizeHit_def getResizeHandle_def resizePreview_def leftPress_def
  getCurrentStore_def getCurrentAisles_def clickedAisle_def snap_values orNum_def MIN_SIZE_def
  rectOverlapsAisle_def Let_def

text \<open>
  A press within 0.8 of the right edge of the selected aisle is on its handle \<open>e\<close>: the
  same gesture resizes that aisle (here to a width of 15), and no aisle is created.
\<close>

lemma press_on_handle_resizes:
  "resizeHit (21 / 2, 5) oneAisleEditor = Some (squareAisle, ''e'') \<and>
   map a_id (aisles (dragCreate (21 / 2, 5) (15, 8) (Some ''a1'') oneAisleEditor)) = [''a0''] \<and>
   map a_width (aisles (dragCreate (21 / 2, 5) (15, 8) (Some ''a1'') oneAisleEditor)) = [15]"
  by (simp add: dragCreate_def editor_defs oneAisleEditor_def emptyEditor_def editorStore_def
      squareAisle_def newAisle_def snap_def round_def floor_eq_iff)

text \<open>
  C7. In an empty 30 x 30 store, a drag from (2, 2) to (5, 2.2) spans 3 m in x and, after
  snapping, 0 m in z; the release creates an aisle of 3 x 1. A press at (2, 2) followed
  by a move within the same snapped cell creates an aisle of 1 x 1. The move handler
  has already replaced each zero span by 1, so the minimum-size check of the release
  handler ("must drag at least 1m in both directions") does not see the short drag.
\<close>

theorem short_drag_creates_aisle:
  "aisles (dragCreate (2, 2) (5, 11 / 5) (Some ''a1'') emptyEditor) =
     [newAisle ''a1'' ''S'' 0 \<lparr>r_x = 2, r_z = 2, r_width = 3, r_length = 1\<rparr>] \<and>
   aisles (dragCreate (2, 2) (11 / 5, 21 / 10) (Some ''a1'') emptyEditor) =
     [newAisle ''a1'' ''S'' 0 \<lparr>r_x = 2, r_z = 2, r_width = 1, r_length = 1\<rparr>]"
  by (simp add: dragCreate_def editor_defs emptyEditor_def editorStore_def)

section \<open>Accounting of picked-up boxes\<close>

lemma filter_out_one:
  "distinct (map f xs) \<Longrightarrow> x \<in> set xs \<Longrightarrow>
   Suc (length (filter (\<lambda>y. f y \<noteq> f x) xs)) = length xs"
proof (induction xs)
  case Nil
  then show ?case by simp
next
  case (Cons a xs)
  show ?case
  proof (cases "a = x")
    case True
    with Cons.prems have "f x \<notin> f ` set xs" by simp
    then have "\<forall>y\<in>set xs. f y \<noteq> f x" by (metis imageI)
    then have "filter (\<lambda>y. f y \<noteq> f x) xs = xs" by (simp add: filter_id_conv)
    with True show ?thesis by simp
  next
    case False
    with Cons.prems have "x \<in> set xs" "f a \<noteq> f x" by auto
    with Cons show ?thesis by simp
  qed
qed

lemma accounted_step:
  assumes "accounted st" "disciplined e st"
  shows "accounted (step e st)"
proof (cases e)
  case (GrabBox b)
  with assms show ?thesis
    by (auto simp: accounted_def handleGrabBox_def heldOrPlaced_def)
next
  case (PlaceBox aisleId unitIdx shelfLevel x z now)
  with assms show ?thesis
    by (auto simp: accounted_def handlePlaceBox_def heldOrPlaced_def split: option.splits)
next
  case Reset
  then show ?thesis
    by (simp add: accounted_def handleReset_def heldOrPlaced_def)
next
  case (GrabPlacedBox pb)
  with assms have pb: "pb \<in> set (placedBoxesData st)" by simp
  from assms have d: "distinct (map pb_id (placedBoxesData st))" by (simp add: accounted_def)
  have "Suc (length (filter (\<lambda>y. pb_id y \<noteq> pb_id pb) (placedBoxesData st))) =
        length (placedBoxesData st)"
    using filter_out_one[OF d pb] .
  with assms GrabPlacedBox d show ?thesis
    by (auto simp: accounted_def handleGrabPlacedBox_def heldOrPlaced_def distinct_map_filter
        split: option.splits)
next
  case (ModeButton m)
  with assms show ?thesis
    by (cases m) (auto simp: accounted_def setMode_def heldOrPlaced_def)
qed

lemma accounted_run: "accounted st \<Longrightarrow> disciplinedRun es st \<Longrightarrow> accounted (run es st)"
  by (induction es arbitrary: st) (auto intro: accounted_step)

lemma accounted_initial: "accounted (initialView storeId items)"
  by (simp add: accounted_def initialView_def heldOrPlaced_def)

lemma picked_grows: "e \<noteq> Reset \<Longrightarrow> pickedBoxIds st \<subseteq> pickedBoxIds (step e st)"
proof (cases e)
  case (ModeButton m)
  then show ?thesis by (cases m) (auto simp: setMode_def)
qed (auto simp: handleGrabBox_def handlePlaceBox_def handleGrabPlacedBox_def split: option.splits)

text \<open>
  The grab handler itself has no guard: a second grab with a box in hand replaces the
  held box and picks up a second id.
\<close>

lemma grab_while_holding:
  "card (pickedBoxIds (run [GrabBox sampleBox, GrabBox secondBox]
      (initialView (Some ''S'') [largeItem]))) = 2 \<and>
   heldOrPlaced (run [GrabBox sampleBox, GrabBox secondBox]
      (initialView (Some ''S'') [largeItem])) = 1"
  by (simp add: initialView_def handleGrabBox_def heldOrPlaced_def sampleBox_def secondBox_def)

text \<open>
  C8, as stated: at every reachable state the number of picked-up ids equals the number
  of overrides held or placed. This fails after grabbing a box and pressing the walk
  button: the box is dropped from the hand, its id stays picked up.
\<close>

theorem picked_count_exceeds_overrides:
  "card (pickedBoxIds droppedInWalk) = 1 \<and> heldOrPlaced droppedInWalk = 0"
  by (simp add: droppedInWalk_def initialView_def setMode_def handleGrabBox_def heldOrPlaced_def)

text \<open>
  C8, amended. Along every run from the initial state that follows the protocol (grab
  with an empty hand a box not yet picked up, place with a fresh timestamp, grab again
  a box that is placed, no walk button with a box in hand), the number of picked-up ids
  equals the number of overrides held or placed. In every state and for every event
  other than reset, the picked-up set only grows, so only reset can empty it.
\<close>

theorem session_accounting:
  "(disciplinedRun es (initialView storeId items) \<longrightarrow>
      card (pickedBoxIds (run es (initialView storeId items))) =
      heldOrPlaced (run es (initialView storeId items))) \<and>
   (e \<noteq> Reset \<longrightarrow> pickedBoxIds st \<subseteq> pickedBoxIds (step e st))"
  using accounted_run[OF accounted_initial, of es storeId items] picked_grows[of e st]
  by (auto simp: accounted_def)

theorem session_accounting_witness:
  "disciplinedRun regrabRun (initialView (Some ''S'') [largeItem]) \<and>
   card (pickedBoxIds (run regrabRun (initialView (Some ''S'') [largeItem]))) = 1 \<and>
   heldOrPlaced (run regrabRun (initialView (Some ''S'') [largeItem])) = 1 \<and>
   GrabBox sampleBox \<noteq> Reset \<and>
   pickedBoxIds (initialView (Some ''S'') [largeItem]) \<subseteq>
     pickedBoxIds (step (GrabBox sampleBox) (initialView (Some ''S'') [largeItem]))"
proof -
  have run: "disciplinedRun regrabRun (initialView (Some ''S'') [largeItem])"
    by (simp add: regrabRun_def initialView_def setMode_def handleGrabBox_def handlePlaceBox_def
        handleGrabPlacedBox_def placedSample_def sampleBox_def boxId_defs scenario_defs)
  have held: "heldOrPlaced (run regrabRun (initialView (Some ''S'') [largeItem])) = 1"
    by (simp add: regrabRun_def initialView_def setMode_def handleGrabBox_def handlePlaceBox_def
        handleGrabPlacedBox_def placedSample_def sampleBox_def boxId_defs scenario_defs
        heldOrPlaced_def)
  from run held
    session_accounting[of regrabRun "Some ''S''" "[largeItem]" "GrabBox sampleBox"
      "initialView (Some ''S'') [largeItem]"]
  show ?thesis by simp
qed

section \<open>Shelf count\<close>

text \<open>
  C9, as stated: a new aisle's shelf count is the formula at its height. A new aisle
  gets the two constants of \<open>DEFAULT_AISLE\<close>, height 3 and 6 shelves, while the formula
  gives 5 at height 3.
\<close>

theorem default_shelves_differ_from_formula:
  "int (shelves (newAisle ''a1'' ''S'' 0 \<lparr>r_x = 0, r_z = 0, r_width = 10, r_length = 10\<rparr>)) \<noteq>
   calculateShelfCount (a_height (newAisle ''a1'' ''S'' 0 \<lparr>r_x = 0, r_z = 0, r_width = 10, r_length = 10\<rparr>))"
  by (simp add: newAisle_def DEFAULT_AISLE_shelves_def DEFAULT_AISLE_height_def
      calculateShelfCount_def Let_def floor_eq_iff)

text \<open>
  C9, amended. The shelf count computed from a height \<open>h\<close> is
  \<open>max 1 (min 10 \<lfloor>(min h 2.1 - 0.15) / 0.35\<rfloor>)\<close>, an integer between 1 and 10 (at most 5,
  since the usable height is capped at 1.95); a height edit stores this value. A new
  aisle has height 3 and 6 shelves, which lies in the range and is not the formula's
  value 5 at that height.
\<close>

theorem shelf_count_derivation:
  "calculateShelfCount h = shelfCountFormula h \<and>
   1 \<le> calculateShelfCount h \<and> calculateShelfCount h \<le> 10 \<and> calculateShelfCount h \<le> 5 \<and>
   shelves (updateHeight v aisle) =
     (if v > 0 then nat (shelfCountFormula (max 1 v)) else shelves aisle) \<and>
   a_height (newAisle aisleId storeId n rect) = 3 \<and>
   shelves (newAisle aisleId storeId n rect) = 6 \<and>
   calculateShelfCount 3 = 5"
proof -
  have formula: "calculateShelfCount x = shelfCountFormula x" for x
    by (simp add: calculateShelfCount_def shelfCountFormula_def Let_def)
  have lower: "1 \<le> calculateShelfCount h"
    by (simp add: calculateShelfCount_def Let_def)
  have upper: "calculateShelfCount h \<le> 5"
    unfolding calculateShelfCount_def Let_def by (simp add: floor_le_iff)
  have at3: "calculateShelfCount 3 = 5"
    by (simp add: calculateShelfCount_def Let_def floor_eq_iff)
  have edit: "shelves (updateHeight v aisle) =
      (if v > 0 then nat (shelfCountFormula (max 1 v)) else shelves aisle)"
    by (simp add: updateHeight_def formula)
  have fresh: "a_height (newAisle aisleId storeId n rect) = 3"
    "shelves (newAisle aisleId storeId n rect) = 6"
    by (simp_all add: newAisle_def DEFAULT_AISLE_shelves_def DEFAULT_AISLE_height_def)
  from upper have "calculateShelfCount h \<le> 10" by linarith
  with formula[of h] lower upper at3 edit fresh show ?thesis
    by blast
qed

section \<open>Loop invariants of the packer\<close>

lemma emitBox_InrD:
  assumes "emitBox aid ap item ts W H D c r = Inr (c', r')"
  shows "c' = c\<lparr>c_x := c_x c + W + BOX_GAP, boxIdx := boxIdx c + 1\<rparr>"
    and "r (c_unit c) \<noteq> None"
    and "boxesAt r' u l =
           (if u = c_unit c \<and> l = ts then boxesAt r u l @ [boxAtCursor aid ap item ts W H D c]
            else boxesAt r u l)"
    and "r' u' = None \<longleftrightarrow> r u' = None"
proof -
  from assms obtain levels boxes where
    lv: "r (c_unit c) = Some levels" "levels ts = Some boxes" and
    c': "c' = c\<lparr>c_x := c_x c + W + BOX_GAP, boxIdx := boxIdx c + 1\<rparr>" and
    r': "r' = r(c_unit c \<mapsto> levels(ts \<mapsto> boxes @ [boxAtCursor aid ap item ts W H D c]))"
    by (auto simp: emitBox_def split: option.splits)
  show "c' = c\<lparr>c_x := c_x c + W + BOX_GAP, boxIdx := boxIdx c + 1\<rparr>"
    by (rule c')
  show "r (c_unit c) \<noteq> None"
    using lv by simp
  show "boxesAt r' u l =
           (if u = c_unit c \<and> l = ts then boxesAt r u l @ [boxAtCursor aid ap item ts W H D c]
            else boxesAt r u l)"
    using lv by (simp add: boxesAt_def r')
  show "r' u' = None \<longleftrightarrow> r u' = None"
    using lv by (simp add: r')
qed

lemma boxAtCursor_within:
  assumes "startX \<le> c_x c" "startZ \<le> c_z c" "c_x c + W \<le> endX" "c_z c + D \<le> endZ"
  shows "withinUsableArea (boxAtCursor aid ap item ts W H D c)"
  using assms by (simp add: withinUsableArea_def boxAtCursor_def)

lemma wrap_fits:
  assumes "0 < W" "W \<le> 5 / 2" "0 < D" "D \<le> 1" "startX \<le> c_x c" "startZ \<le> c_z c"
  shows "startX \<le> c_x (unitWrap D (rowWrap W D c))"
    and "startZ \<le> c_z (unitWrap D (rowWrap W D c))"
    and "\<not> c_z (rowWrap W D c) + D > endZ \<Longrightarrow> c_x (unitWrap D (rowWrap W D c)) + W \<le> endX"
    and "\<not> c_z (rowWrap W D c) + D > endZ \<Longrightarrow> c_z (unitWrap D (rowWrap W D c)) + D \<le> endZ"
    and "c_z (rowWrap W D c) + D > endZ \<Longrightarrow> c_x (unitWrap D (rowWrap W D c)) + W \<le> endX"
    and "c_z (rowWrap W D c) + D > endZ \<Longrightarrow> c_z (unitWrap D (rowWrap W D c)) + D \<le> endZ"
  using assms by (auto simp: unitWrap_def rowWrap_def usable_area BOX_GAP_def)

lemma placeLoop_within:
  assumes "0 < W" "W \<le> 5 / 2" "0 < D" "D \<le> 1"
  shows "startX \<le> c_x c \<Longrightarrow> startZ \<le> c_z c \<Longrightarrow>
         (\<forall>u l. \<forall>b\<in>set (boxesAt r u l). withinUsableArea b) \<Longrightarrow>
         placeLoop n nu aid ap item ts W H D c r = Inr (c', r') \<Longrightarrow>
         startX \<le> c_x c' \<and> startZ \<le> c_z c' \<and> (\<forall>u l. \<forall>b\<in>set (boxesAt r' u l). withinUsableArea b)"
proof (induction n arbitrary: c r)
  case 0
  then show ?case by simp
next
  case (Suc n)
  let ?c2 = "unitWrap D (rowWrap W D c)"
  note fits = wrap_fits[OF assms Suc.prems(1,2)]
  show ?case
  proof (cases "c_z (rowWrap W D c) + D > endZ \<and> c_unit ?c2 \<ge> nu")
    case True
    with Suc.prems(4) have "c' = ?c2" "r' = r" by (simp_all add: Let_def)
    with fits Suc.prems(3) show ?thesis by simp
  next
    case False
    with Suc.prems(4) obtain c3 r3 where
      emit: "emitBox aid ap item ts W H D ?c2 r = Inr (c3, r3)" and
      rest: "placeLoop n nu aid ap item ts W H D c3 r3 = Inr (c', r')"
      by (auto simp: Let_def split: sum.splits)
    have inside: "c_x ?c2 + W \<le> endX" "c_z ?c2 + D \<le> endZ"
      using fits(3-6) by blast+
    have box: "withinUsableArea (boxAtCursor aid ap item ts W H D ?c2)"
      using boxAtCursor_within[OF fits(1,2) inside] .
    have c3: "startX \<le> c_x c3" "startZ \<le> c_z c3"
      using emitBox_InrD(1)[OF emit] fits(1,2) assms(1) by (simp_all add: BOX_GAP_def)
    have r3: "\<forall>u l. \<forall>b\<in>set (boxesAt r3 u l). withinUsableArea b"
      using emitBox_InrD(3)[OF emit] Suc.prems(3) box by auto
    show ?thesis
      using Suc.IH[OF c3 r3 rest] .
  qed
qed


lemma packProducts_within:
  "(\<forall>ap\<in>set ps. \<forall>item. inventoryMap (ap_productId ap) = Some item \<longrightarrow> fitsShelf item) \<Longrightarrow>
   (\<forall>l c. cursors l = Some c \<longrightarrow> startX \<le> c_x c \<and> startZ \<le> c_z c) \<Longrightarrow>
   (\<forall>u l. \<forall>b\<in>set (boxesAt r u l). withinUsableArea b) \<Longrightarrow>
   packProducts nu aid inventoryMap ps cursors r = Inr r' \<Longrightarrow>
   (\<forall>u l. \<forall>b\<in>set (boxesAt r' u l). withinUsableArea b)"
proof (induction ps arbitrary: cursors r)
  case Nil
  then show ?case by simp
next
  case (Cons ap ps)
  have rest_fit: "\<forall>ap\<in>set ps. \<forall>item. inventoryMap (ap_productId ap) = Some item \<longrightarrow> fitsShelf item"
    using Cons.prems(1) by simp
  show ?case
  proof (cases "inventoryMap (ap_productId ap)")
    case None
    with Cons.prems(4) have "packProducts nu aid inventoryMap ps cursors r = Inr r'" by simp
    from Cons.IH[OF rest_fit Cons.prems(2,3) this] show ?thesis .
  next
    case (Some item)
    obtain W H D where dims: "resolveDims item = (W, H, D)"
      by (cases "resolveDims item") auto
    from Cons.prems(1) Some have "fitsShelf item" by simp
    with dims have fit: "0 < W" "W \<le> 5 / 2" "0 < D" "D \<le> 1"
      by (simp_all add: fitsShelf_def)
    let ?ts = "targetShelfOf ap"
    let ?c = "case cursors ?ts of None \<Rightarrow> startCursor | Some c \<Rightarrow> c"
    have c: "startX \<le> c_x ?c" "startZ \<le> c_z ?c"
      using Cons.prems(2) by (auto simp: startCursor_def split: option.splits)
    from Cons.prems(4) Some dims obtain c1 r1 where
      loop: "placeLoop (quantityBoxes ap) nu aid ap item ?ts W H D ?c r = Inr (c1, r1)" and
      rest: "packProducts nu aid inventoryMap ps (cursors(?ts \<mapsto> c1)) r1 = Inr r'"
      by (auto simp: Let_def split: sum.splits)
    from placeLoop_within[OF fit c Cons.prems(3) loop]
    have c1: "startX \<le> c_x c1" "startZ \<le> c_z c1"
      and r1: "\<forall>u l. \<forall>b\<in>set (boxesAt r1 u l). withinUsableArea b"
      by simp_all
    have cursors1: "\<forall>l c. (cursors(?ts \<mapsto> c1)) l = Some c \<longrightarrow> startX \<le> c_x c \<and> startZ \<le> c_z c"
      using Cons.prems(2) c1 by auto
    from Cons.IH[OF rest_fit cursors1 r1 rest] show ?thesis .
  qed
qed

lemma initial_within:
  "\<forall>l c. initCursors sh l = Some c \<longrightarrow> startX \<le> c_x c \<and> startZ \<le> c_z c"
  "\<forall>u l. \<forall>b\<in>set (boxesAt (initResult nu sh) u l). withinUsableArea b"
  by (auto simp: initCursors_def startCursor_def initResult_def boxesAt_def split: if_splits)

lemma levelBoxes_snoc:
  assumes "u0 < nu"
      and "\<forall>u>u0. boxesAt r u l = []"
      and "\<forall>u. boxesAt r' u l = (if u = u0 then boxesAt r u l @ [b] else boxesAt r u l)"
  shows "levelBoxes r' nu l = levelBoxes r nu l @ [b]"
proof -
  have split: "[0..<nu] = [0..<u0] @ [u0] @ [Suc u0..<nu]"
    using assms(1) by (metis append_Cons append_Nil le_add1 less_imp_add_positive upt_add_eq_append upt_conv_Cons zero_le add_Suc_right less_or_eq_imp_le upt_rec)
  have before: "map (\<lambda>u. boxesAt r' u l) [0..<u0] = map (\<lambda>u. boxesAt r u l) [0..<u0]"
    using assms(3) by simp
  have after: "concat (map (\<lambda>u. boxesAt r' u l) [Suc u0..<nu]) = []"
    "concat (map (\<lambda>u. boxesAt r u l) [Suc u0..<nu]) = []"
    using assms(2,3) by auto
  have at: "boxesAt r' u0 l = boxesAt r u0 l @ [b]"
    using assms(3) by simp
  show ?thesis
    unfolding levelBoxes_def split by (simp add: before after at)
qed


lemma levelBoxes_nil: "(\<forall>u. boxesAt r u l = []) \<Longrightarrow> levelBoxes r nu l = []"
  by (simp add: levelBoxes_def)

lemma levelBoxes_cong: "(\<forall>u. boxesAt r' u l = boxesAt r u l) \<Longrightarrow> levelBoxes r' nu l = levelBoxes r nu l"
  by (simp add: levelBoxes_def)

lemma levelInv_cong:
  assumes "\<forall>u. boxesAt r' u l = boxesAt r u l" "levelInv nu aid l c r"
  shows "levelInv nu aid l c r'"
proof -
  have "levelBoxes r' nu l = levelBoxes r nu l"
    using levelBoxes_cong[OF assms(1)] .
  with assms show ?thesis
    unfolding levelInv_def by simp
qed

lemma levelInv_wrap:
  assumes "levelInv nu aid l c r"
  shows "levelInv nu aid l (unitWrap D (rowWrap W D c)) r"
proof -
  have idx: "boxIdx (unitWrap D (rowWrap W D c)) = boxIdx c"
    by (simp add: unitWrap_def rowWrap_def)
  have le: "c_unit c \<le> c_unit (unitWrap D (rowWrap W D c))"
    by (simp add: unitWrap_def rowWrap_def)
  have "\<forall>u. boxesAt r u l \<noteq> [] \<longrightarrow> u \<le> c_unit (unitWrap D (rowWrap W D c))"
    using assms le unfolding levelInv_def by (meson order_trans)
  with assms idx show ?thesis
    unfolding levelInv_def by simp
qed

lemma levelInv_emit:
  assumes inv: "levelInv nu aid ts c r"
      and bounded: "\<forall>u. r u \<noteq> None \<longrightarrow> u < nu"
      and emit: "emitBox aid ap item ts W H D c r = Inr (c', r')"
  shows "levelInv nu aid ts c' r'"
proof -
  let ?b = "boxAtCursor aid ap item ts W H D c"
  let ?old = "levelBoxes r nu ts"
  note e = emitBox_InrD[OF emit]
  have unit: "c_unit c < nu"
    using e(2) bounded by blast
  have later: "\<forall>u>c_unit c. boxesAt r u ts = []"
    using inv by (auto simp: levelInv_def)
  have upd: "\<forall>u. boxesAt r' u ts = (if u = c_unit c then boxesAt r u ts @ [?b] else boxesAt r u ts)"
    using e(3) by simp
  have snoc: "levelBoxes r' nu ts = ?old @ [?b]"
    using levelBoxes_snoc[OF unit later upd] .
  have idx: "boxIdx c = length ?old"
    using inv by (simp add: levelInv_def)
  have c': "boxIdx c' = Suc (boxIdx c)" "c_unit c' = c_unit c"
    using e(1) by simp_all
  have ids: "\<forall>k < length (?old @ [?b]).
        boxId ((?old @ [?b]) ! k) =
          mkBoxId aid (b_productId ((?old @ [?b]) ! k)) ts (unitIndex ((?old @ [?b]) ! k)) k"
  proof (intro allI impI)
    fix k assume "k < length (?old @ [?b])"
    then consider "k < length ?old" | "k = length ?old" by fastforce
    then show "boxId ((?old @ [?b]) ! k) =
          mkBoxId aid (b_productId ((?old @ [?b]) ! k)) ts (unitIndex ((?old @ [?b]) ! k)) k"
    proof cases
      case 1
      with inv show ?thesis by (simp add: levelInv_def nth_append)
    next
      case 2
      with idx show ?thesis by (simp add: boxAtCursor_def)
    qed
  qed
  have fields: "\<forall>u. \<forall>b\<in>set (boxesAt r' u ts).
      unitIndex b = u \<and> b_shelfLevel b = ts \<and> b_aisleId b = aid \<and> u < nu"
    using inv unit upd by (auto simp: levelInv_def boxAtCursor_def)
  have units: "\<forall>u. boxesAt r' u ts \<noteq> [] \<longrightarrow> u \<le> c_unit c'"
    using inv upd c'(2) by (auto simp: levelInv_def)
  show ?thesis
    unfolding levelInv_def snoc using idx c'(1) ids fields units by simp
qed


lemma placeLoop_levels:
  "levelInv nu aid ts c r \<Longrightarrow> (\<forall>u. r u \<noteq> None \<longrightarrow> u < nu) \<Longrightarrow>
   placeLoop n nu aid ap item ts W H D c r = Inr (c', r') \<Longrightarrow>
   levelInv nu aid ts c' r' \<and> (\<forall>u. r' u \<noteq> None \<longrightarrow> u < nu) \<and>
   (\<forall>l u. l \<noteq> ts \<longrightarrow> boxesAt r' u l = boxesAt r u l)"
proof (induction n arbitrary: c r)
  case 0
  then show ?case by simp
next
  case (Suc n)
  let ?c2 = "unitWrap D (rowWrap W D c)"
  have inv2: "levelInv nu aid ts ?c2 r"
    using levelInv_wrap[OF Suc.prems(1)] .
  show ?case
  proof (cases "c_z (rowWrap W D c) + D > endZ \<and> c_unit ?c2 \<ge> nu")
    case True
    with Suc.prems(3) have "c' = ?c2" "r' = r" by (simp_all add: Let_def)
    with inv2 Suc.prems(2) show ?thesis by simp
  next
    case False
    with Suc.prems(3) obtain c3 r3 where
      emit: "emitBox aid ap item ts W H D ?c2 r = Inr (c3, r3)" and
      rest: "placeLoop n nu aid ap item ts W H D c3 r3 = Inr (c', r')"
      by (auto simp: Let_def split: sum.splits)
    have inv3: "levelInv nu aid ts c3 r3"
      using levelInv_emit[OF inv2 Suc.prems(2) emit] .
    have bounded3: "\<forall>u. r3 u \<noteq> None \<longrightarrow> u < nu"
      using emitBox_InrD(4)[OF emit] Suc.prems(2) by simp
    have other3: "\<forall>l u. l \<noteq> ts \<longrightarrow> boxesAt r3 u l = boxesAt r u l"
      using emitBox_InrD(3)[OF emit] by simp
    from Suc.IH[OF inv3 bounded3 rest] other3 show ?thesis by simp
  qed
qed

lemma packProducts_levels:
  "(\<forall>l. levelInv nu aid l (case cursors l of None \<Rightarrow> startCursor | Some c \<Rightarrow> c) r) \<Longrightarrow>
   (\<forall>u. r u \<noteq> None \<longrightarrow> u < nu) \<Longrightarrow>
   packProducts nu aid inventoryMap ps cursors r = Inr r' \<Longrightarrow>
   \<exists>c. levelInv nu aid l c r'"
proof (induction ps arbitrary: cursors r)
  case Nil
  then show ?case by auto
next
  case (Cons ap ps)
  show ?case
  proof (cases "inventoryMap (ap_productId ap)")
    case None
    with Cons.prems(3) have "packProducts nu aid inventoryMap ps cursors r = Inr r'" by simp
    from Cons.IH[OF Cons.prems(1,2) this] show ?thesis .
  next
    case (Some item)
    obtain W H D where dims: "resolveDims item = (W, H, D)"
      by (cases "resolveDims item") auto
    let ?ts = "targetShelfOf ap"
    let ?c = "case cursors ?ts of None \<Rightarrow> startCursor | Some c \<Rightarrow> c"
    from Cons.prems(3) Some dims obtain c1 r1 where
      loop: "placeLoop (quantityBoxes ap) nu aid ap item ?ts W H D ?c r = Inr (c1, r1)" and
      rest: "packProducts nu aid inventoryMap ps (cursors(?ts \<mapsto> c1)) r1 = Inr r'"
      by (auto simp: Let_def split: sum.splits)
    have start: "levelInv nu aid ?ts ?c r"
      using Cons.prems(1) by blast
    from placeLoop_levels[OF start Cons.prems(2) loop]
    have inv1: "levelInv nu aid ?ts c1 r1"
      and bounded1: "\<forall>u. r1 u \<noteq> None \<longrightarrow> u < nu"
      and other1: "\<forall>l u. l \<noteq> ?ts \<longrightarrow> boxesAt r1 u l = boxesAt r u l"
      by simp_all
    have all1: "\<forall>l. levelInv nu aid l
        (case (cursors(?ts \<mapsto> c1)) l of None \<Rightarrow> startCursor | Some c \<Rightarrow> c) r1"
    proof
      fix l
      show "levelInv nu aid l
        (case (cursors(?ts \<mapsto> c1)) l of None \<Rightarrow> startCursor | Some c \<Rightarrow> c) r1"
      proof (cases "l = ?ts")
        case True
        with inv1 show ?thesis by simp
      next
        case False
        with other1 have same: "\<forall>u. boxesAt r1 u l = boxesAt r u l" by simp
        from Cons.prems(1) have "levelInv nu aid l (case cursors l of None \<Rightarrow> startCursor | Some c \<Rightarrow> c) r"
          by blast
        from levelInv_cong[OF same this] False show ?thesis by simp
      qed
    qed
    from Cons.IH[OF all1 bounded1 rest] show ?thesis .
  qed
qed

lemma initial_levels:
  "levelInv nu aid l (case initCursors sh l of None \<Rightarrow> startCursor | Some c \<Rightarrow> c) (initResult nu sh)"
  "\<forall>u. initResult nu sh u \<noteq> None \<longrightarrow> u < nu"
proof -
  have empty: "\<forall>u. boxesAt (initResult nu sh) u l = []"
    by (simp add: boxesAt_def initResult_def)
  have "(case initCursors sh l of None \<Rightarrow> startCursor | Some c \<Rightarrow> c) = startCursor"
    by (simp add: initCursors_def)
  then show "levelInv nu aid l (case initCursors sh l of None \<Rightarrow> startCursor | Some c \<Rightarrow> c)
      (initResult nu sh)"
    using empty levelBoxes_nil[OF empty] by (simp add: levelInv_def startCursor_def)
  show "\<forall>u. initResult nu sh u \<noteq> None \<longrightarrow> u < nu"
    by (simp add: initResult_def)
qed

lemma pack_levels:
  assumes "pack aisle inventoryMap = Inr result"
  shows "\<exists>c. levelInv (numUnits aisle) (a_id aisle) l c result"
proof -
  from assms have run: "packProducts (numUnits aisle) (a_id aisle) inventoryMap (products aisle)
       (initCursors (shelves aisle)) (initResult (numUnits aisle) (shelves aisle)) = Inr result"
    by (simp add: pack_def)
  have "\<forall>l. levelInv (numUnits aisle) (a_id aisle) l
      (case initCursors (shelves aisle) l of None \<Rightarrow> startCursor | Some c \<Rightarrow> c)
      (initResult (numUnits aisle) (shelves aisle))"
    using initial_levels(1) by blast
  from packProducts_levels[OF this initial_levels(2) run] show ?thesis .
qed

lemma pack_box_fields:
  assumes "pack aisle inventoryMap = Inr result" "b \<in> set (boxesAt result u l)"
  shows "unitIndex b = u \<and> b_shelfLevel b = l \<and> b_aisleId b = a_id aisle \<and> u < numUnits aisle"
proof -
  from pack_levels[OF assms(1)] obtain c where
    "levelInv (numUnits aisle) (a_id aisle) l c result" by blast
  with assms(2) show ?thesis
    unfolding levelInv_def by blast
qed

section \<open>Containment of packed boxes\<close>

text \<open>
  C10, amended. When every allocation that resolves in the inventory has a resolved box
  width in (0, 2.5] and depth in (0, 1.0], every box the packer emits records the unit
  and level it sits in, that unit exists, and the box lies within the usable area of its
  shelf: its min corner is at least \<open>(startX, startZ)\<close> and at most
  \<open>(endX - width, endZ - depth)\<close>.
\<close>

theorem packed_boxes_within_usable_area:
  assumes "\<forall>ap\<in>set (products aisle). \<forall>item.
             inventoryMap (ap_productId ap) = Some item \<longrightarrow> fitsShelf item"
      and "pack aisle inventoryMap = Inr result"
      and "b \<in> set (boxesAt result u l)"
  shows "unitIndex b = u \<and> b_shelfLevel b = l \<and> u < numUnits aisle \<and>
         startX \<le> b_x b - b_width b / 2 \<and> b_x b - b_width b / 2 \<le> endX - b_width b \<and>
         startZ \<le> b_z b - b_depth b / 2 \<and> b_z b - b_depth b / 2 \<le> endZ - b_depth b"
proof -
  from assms(2) have "packProducts (numUnits aisle) (a_id aisle) inventoryMap (products aisle)
       (initCursors (shelves aisle)) (initResult (numUnits aisle) (shelves aisle)) = Inr result"
    by (simp add: pack_def)
  from packProducts_within[OF assms(1) initial_within this] assms(3)
  have "withinUsableArea b" by blast
  with pack_box_fields[OF assms(2,3)] show ?thesis
    by (simp add: withinUsableArea_def)
qed

theorem packed_boxes_within_usable_area_witness:
  "\<exists>result. pack vacancyAisle [''large'' \<mapsto> largeItem] = Inr result \<and>
      sampleBox \<in> set (boxesAt result 0 1) \<and> fitsShelf largeItem \<and>
      unitIndex sampleBox = 0 \<and> b_shelfLevel sampleBox = 1 \<and>
      startX \<le> b_x sampleBox - b_width sampleBox / 2 \<and>
      b_x sampleBox - b_width sampleBox / 2 \<le> endX - b_width sampleBox \<and>
      startZ \<le> b_z sampleBox - b_depth sampleBox / 2 \<and>
      b_z sampleBox - b_depth sampleBox / 2 \<le> endZ - b_depth sampleBox"
proof -
  from vacancy_packed_boxes obtain result where
    packed: "pack vacancyAisle [''large'' \<mapsto> largeItem] = Inr result" and
    boxes: "boxesAt result 0 1 = [sampleBox, secondBox]"
    by (auto split: sum.splits)
  have large: "fitsShelf largeItem"
    by (simp add: fitsShelf_def resolveDims_def orNum_def scenario_defs)
  have fit: "\<forall>ap\<in>set (products vacancyAisle). \<forall>item.
      [''large'' \<mapsto> largeItem] (ap_productId ap) = Some item \<longrightarrow> fitsShelf item"
    using large by (simp add: vacancyAisle_def rackAisle_def allocation_def)
  have mem: "sampleBox \<in> set (boxesAt result 0 1)"
    using boxes by simp
  from packed_boxes_within_usable_area[OF fit packed mem] packed mem large
  show ?thesis by blast
qed

text \<open>
  C10, as stated, bounds the resolved width and depth only from above. A stored width of
  -1 passes the fallback (only a zero is replaced) and meets both bounds, and the second
  box of such a product is placed left of \<open>startX\<close>: the cursor moves by
  width + gap, which is negative.
\<close>

theorem negative_width_leaves_usable_area:
  "resolveDims negativeItem = (- 1, 2 / 10, 2 / 10) \<and>
   map_option withinUsableArea (nthBoxAt (pack negativeAisle [''neg'' \<mapsto> negativeItem]) 0 1 1) = Some False"
  by (simp add: nthBoxAt_def withinUsableArea_def negativeAisle_def negativeItem_def scenario_defs
      pack_defs geometry_defs placeLoop_pos boxId_defs)

section \<open>Box identities\<close>

text \<open>
  C4. The packing result depends on the aisle only through its id, products, shelf count
  and length: two aisles that agree on these, whatever their name, position, width or
  height, give the same result for the same inventory map. In a result, the boxes of a
  shelf level read in unit order carry the ids built from the aisle id, the product id,
  the level, the unit and their position 0, 1, 2, ... in that sequence, and each box
  records the aisle, the unit and the level it sits in.
\<close>

theorem boxIds_determined:
  "(a_id aisle' = a_id aisle \<and> products aisle' = products aisle \<and>
    shelves aisle' = shelves aisle \<and> a_length aisle' = a_length aisle \<longrightarrow>
      pack aisle' inventoryMap = pack aisle inventoryMap) \<and>
   (pack aisle inventoryMap = Inr result \<longrightarrow>
      (\<forall>k < length (levelBoxes result (numUnits aisle) l).
         boxId (levelBoxes result (numUnits aisle) l ! k) =
           mkBoxId (a_id aisle) (b_productId (levelBoxes result (numUnits aisle) l ! k)) l
             (unitIndex (levelBoxes result (numUnits aisle) l ! k)) k) \<and>
      (\<forall>b\<in>set (boxesAt result u l).
         unitIndex b = u \<and> b_shelfLevel b = l \<and> b_aisleId b = a_id aisle \<and> u < numUnits aisle))"
proof (intro conjI impI)
  assume "a_id aisle' = a_id aisle \<and> products aisle' = products aisle \<and>
    shelves aisle' = shelves aisle \<and> a_length aisle' = a_length aisle"
  then show "pack aisle' inventoryMap = pack aisle inventoryMap"
    by (simp add: pack_def numUnits_def)
next
  assume packed: "pack aisle inventoryMap = Inr result"
  from pack_levels[OF packed] obtain c where
    inv: "levelInv (numUnits aisle) (a_id aisle) l c result"
    by blast
  from inv show "\<forall>k < length (levelBoxes result (numUnits aisle) l).
         boxId (levelBoxes result (numUnits aisle) l ! k) =
           mkBoxId (a_id aisle) (b_productId (levelBoxes result (numUnits aisle) l ! k)) l
             (unitIndex (levelBoxes result (numUnits aisle) l ! k)) k"
    unfolding levelInv_def by blast
  from pack_box_fields[OF packed] show "\<forall>b\<in>set (boxesAt result u l).
         unitIndex b = u \<and> b_shelfLevel b = l \<and> b_aisleId b = a_id aisle \<and> u < numUnits aisle"
    by blast
qed

theorem boxIds_determined_witness:
  "\<exists>result. pack vacancyAisle [''large'' \<mapsto> largeItem] = Inr result \<and>
      pack (vacancyAisle\<lparr>a_name := ''Moved'', a_x := 7\<rparr>) [''large'' \<mapsto> largeItem] = Inr result \<and>
      levelBoxes result (numUnits vacancyAisle) 1 = [sampleBox, secondBox] \<and>
      boxId secondBox = mkBoxId ''A'' ''large'' 1 0 1 \<and>
      unitIndex secondBox = 0 \<and> b_shelfLevel secondBox = 1"
proof -
  from vacancy_packed_boxes obtain result where
    packed: "pack vacancyAisle [''large'' \<mapsto> largeItem] = Inr result" and
    boxes: "boxesAt result 0 1 = [sampleBox, secondBox]"
    by (auto split: sum.splits)
  have units: "numUnits vacancyAisle = 1"
    by (simp add: numUnits_def vacancyAisle_def rackAisle_def rackWidth_def)
  have level: "levelBoxes result (numUnits vacancyAisle) 1 = [sampleBox, secondBox]"
    using boxes by (simp add: levelBoxes_def units)
  note inst = boxIds_determined[of "vacancyAisle\<lparr>a_name := ''Moved'', a_x := 7\<rparr>" vacancyAisle
      "[''large'' \<mapsto> largeItem]" result 1 0]
  have same: "pack (vacancyAisle\<lparr>a_name := ''Moved'', a_x := 7\<rparr>) [''large'' \<mapsto> largeItem] = Inr result"
    using inst packed by simp
  from inst packed have ids: "\<forall>k < length (levelBoxes result (numUnits vacancyAisle) 1).
      boxId (levelBoxes result (numUnits vacancyAisle) 1 ! k) =
        mkBoxId (a_id vacancyAisle) (b_productId (levelBoxes result (numUnits vacancyAisle) 1 ! k)) 1
          (unitIndex (levelBoxes result (numUnits vacancyAisle) 1 ! k)) k"
    by blast
  have "1 < length (levelBoxes result (numUnits vacancyAisle) 1)"
    using level by simp
  with ids have "boxId (levelBoxes result (numUnits vacancyAisle) 1 ! 1) =
      mkBoxId (a_id vacancyAisle) (b_productId (levelBoxes result (numUnits vacancyAisle) 1 ! 1)) 1
        (unitIndex (levelBoxes result (numUnits vacancyAisle) 1 ! 1)) 1"
    by blast
  then have "boxId secondBox =
      mkBoxId (a_id vacancyAisle) (b_productId secondBox) 1 (unitIndex secondBox) 1"
    unfolding level by simp
  then have id: "boxId secondBox = mkBoxId ''A'' ''large'' 1 0 1"
    by (simp add: secondBox_def sampleBox_def vacancyAisle_def rackAisle_def)
  have "unitIndex secondBox = 0 \<and> b_shelfLevel secondBox = 1"
    using inst packed boxes by simp
  with packed same level id show ?thesis by blast
qed

end
